theory Spec2Isabelle
  imports Complex_Main "HOL-Library.Sublist" "HOL-Library.Log_Nat"
begin

section \<open>Errors and values\<close>

text \<open>
  The exceptions the Python sources can raise, as values.  \<open>KeyError\<close> is what a dictionary
  lookup \<open>res_var_dict["foo"]\<close> raises for an unknown key (the specification calls it
  UndefinedVariableError); \<open>RuntimeError\<close> is what the optimisation framework raises when
  a name is registered with it a second time; \<open>External\<close> is any exception raised inside
  a collaborating module that is not part of these sources.  \<open>Unmodelled\<close> is not an
  exception: it marks a piece of Python text whose execution is outside the fragment of
  the language embedded here, and says nothing about what the code does with it.
\<close>

datatype error =
    KeyError string
  | IndexError
  | SyntaxError
  | NameError string
  | TypeError
  | ZeroDivisionError
  | UnboundLocalError string
  | RuntimeError string
  | External string
  | Unmodelled string

text \<open>
  The objects that can be bound to a name while \<open>compute_obj\<close> runs: a number read from a
  history (a Python float, modelled as an exact real, so rounding is not represented), the
  loop variable \<open>v\<close> (a string) and \<open>var_list\<close> (a list of strings).
\<close>

datatype pyval = Float real | Str string | StrList "string list"

section \<open>Routine and variable dictionaries\<close>

text \<open>\<open>opf.Routine\<close>, with the attributes that \<open>routine_setup\<close> assigns.\<close>

record routine =
  type :: string
  modules :: "string list"
  driver :: string
  objective :: string
  date :: string

text \<open>
  The dictionaries map a key to a tuple, exactly as the loops of the source unpack it:
  \<open>(name, listval, minval, maxval, setcommand, getcommand)\<close> for a design variable and
  \<open>(name, listval, lower_bound, upper_bound, getcommand)\<close> for a result variable.
  A Python dict iterates in insertion order, so a dictionary is an association list.
\<close>

type_synonym design_var = "string \<times> real list \<times> real option \<times> real option \<times> string \<times> string"
type_synonym res_var = "string \<times> real list \<times> real option \<times> real option \<times> string"

type_synonym design_dict = "(string \<times> design_var) list"
type_synonym res_dict = "(string \<times> res_var) list"

section \<open>The objective expression: \<open>compute_obj\<close>\<close>

definition is_op :: "char \<Rightarrow> bool" where
  "is_op c \<longleftrightarrow> c = CHR ''+'' \<or> c = CHR ''*'' \<or> c = CHR ''/'' \<or> c = CHR ''-''"

text \<open>\<open>re.split('[+*/-]', s)\<close>: cut at every operator character, keeping empty pieces.\<close>

fun splt :: "string \<Rightarrow> string list" where
  "splt [] = [[]]"
| "splt (c # cs) =
     (if is_op c then [] # splt cs
      else (case splt cs of [] \<Rightarrow> [[c]] | t # ts \<Rightarrow> (c # t) # ts))"

text \<open>
  A token that Python accepts as the target of a plain assignment: an ASCII identifier
  that is not a keyword (the keywords of Python 3.7 to 3.12).  For the empty token and for
  a keyword, \<open>exec\<close> of the formatted statement raises SyntaxError.  With any other
  token that is not an identifier the formatted text is some other piece of Python: a
  token ending in a blank binds the name before the blank, \<open>cl#\<close> makes the rest of the
  line a comment, \<open>1;x\<close> makes two statements.  That part of the language is not
  embedded, and for such a token the model gives \<open>Unmodelled\<close>; every statement about
  \<open>compute_obj\<close> below is about objectives whose tokens are identifiers.
\<close>

definition id_start :: "char \<Rightarrow> bool" where
  "id_start c \<longleftrightarrow> c \<in> set ''abcdefghijklmnopqrstuvwxyzABCDEFGHIJKLMNOPQRSTUVWXYZ_''"

definition id_char :: "char \<Rightarrow> bool" where
  "id_char c \<longleftrightarrow> id_start c \<or> c \<in> set ''0123456789''"

definition kwlist :: "string list" where
  "kwlist = [''False'', ''None'', ''True'', ''and'', ''as'', ''assert'', ''async'', ''await'',
     ''break'', ''class'', ''continue'', ''def'', ''del'', ''elif'', ''else'', ''except'',
     ''finally'', ''for'', ''from'', ''global'', ''if'', ''import'', ''in'', ''is'', ''lambda'',
     ''nonlocal'', ''not'', ''or'', ''pass'', ''raise'', ''return'', ''try'', ''while'', ''with'',
     ''yield'', ''__debug__'']"

definition is_identifier :: "string \<Rightarrow> bool" where
  "is_identifier t \<longleftrightarrow>
     (case t of [] \<Rightarrow> False | c # cs \<Rightarrow> id_start c \<and> list_all id_char cs) \<and> t \<notin> set kwlist"

text \<open>
  \<open>exec\<close> and \<open>eval\<close> are called without a namespace argument, so both work on the
  dictionary of the frame's local variables.  CPython (3.6 to 3.12) refreshes that
  dictionary from the function's own variables before each of the two calls: \<open>var_list\<close>
  and \<open>v\<close> are put back to their current values and \<open>result\<close>, not yet assigned, is
  removed.  Names that \<open>exec\<close> has added stay.
\<close>

definition sync_locals :: "string list \<Rightarrow> string \<Rightarrow> (string \<rightharpoonup> pyval) \<Rightarrow> (string \<rightharpoonup> pyval)" where
  "sync_locals var_list v D =
     (D(''var_list'' \<mapsto> StrList var_list, ''v'' \<mapsto> Str v))(''result'' := None)"

text \<open>
  \<open>exec('{} = res_var_dict["{}"][1][-1]'.format(v, v))\<close>.  The right-hand side looks the
  name \<open>res_var_dict\<close> up in the local dictionary first: once a token of that name has
  been bound to a number, subscripting it is a TypeError.  Otherwise the global dictionary
  is read: \<open>[v]\<close> may raise KeyError, \<open>[1]\<close> is the history, \<open>[-1]\<close> raises IndexError
  on an empty history.
\<close>

definition exec_assign :: "res_dict \<Rightarrow> string \<Rightarrow> (string \<rightharpoonup> pyval) \<Rightarrow> error + (string \<rightharpoonup> pyval)" where
  "exec_assign res_var_dict v D =
     (if v = [] \<or> v \<in> set kwlist then Inl SyntaxError
      else if \<not> is_identifier v then Inl (Unmodelled v)
      else (case D ''res_var_dict'' of
              Some shadow \<Rightarrow> Inl TypeError
            | None \<Rightarrow>
               (case map_of res_var_dict v of
                  None \<Rightarrow> Inl (KeyError v)
                | Some (name, listval, rest) \<Rightarrow>
                    (if listval = [] then Inl IndexError
                     else Inr (D(v \<mapsto> Float (last listval)))))))"

text \<open>The loop \<open>for v in var_list: exec(...)\<close>; the first exception ends it.\<close>

fun exec_loop :: "res_dict \<Rightarrow> string list \<Rightarrow> string list \<Rightarrow> (string \<rightharpoonup> pyval) \<Rightarrow> error + (string \<rightharpoonup> pyval)" where
  "exec_loop res_var_dict var_list [] D = Inr D"
| "exec_loop res_var_dict var_list (v # vs) D =
     (case exec_assign res_var_dict v (sync_locals var_list v D) of
        Inl e \<Rightarrow> Inl e
      | Inr D' \<Rightarrow> exec_loop res_var_dict var_list vs D')"

text \<open>
  What \<open>eval\<close> builds from a string of names joined by the four operators: Python's
  \<open>ast.BinOp\<close> tree, \<open>*\<close> and \<open>/\<close> binding tighter than \<open>+\<close> and \<open>-\<close>, all of them
  associating to the left.
\<close>

datatype operator = Add | Sub | Mult | Div

datatype expr = Name string | BinOp expr operator expr

text \<open>The first name of the string and the (operator, name) pairs that follow it.\<close>

fun chain :: "string \<Rightarrow> string \<times> (char \<times> string) list" where
  "chain [] = ([], [])"
| "chain (c # cs) =
     (case chain cs of (t, r) \<Rightarrow> if is_op c then ([], (c, t) # r) else (c # t, r))"

fun close :: "(expr \<times> operator) option \<Rightarrow> expr \<Rightarrow> expr" where
  "close None t = t"
| "close (Some (l, oper)) t = BinOp l oper t"

text \<open>
  \<open>acc\<close> is the sum parsed so far with its pending additive operator, \<open>term\<close> the
  product being read.
\<close>

fun parse_rest :: "(expr \<times> operator) option \<Rightarrow> expr \<Rightarrow> (char \<times> string) list \<Rightarrow> expr" where
  "parse_rest acc term [] = close acc term"
| "parse_rest acc term ((c, t) # rest) =
     (if c = CHR ''*'' then parse_rest acc (BinOp term Mult (Name t)) rest
      else if c = CHR ''/'' then parse_rest acc (BinOp term Div (Name t)) rest
      else if c = CHR ''+'' then parse_rest (Some (close acc term, Add)) (Name t) rest
      else parse_rest (Some (close acc term, Sub)) (Name t) rest)"

definition parse_expr :: "string \<Rightarrow> expr" where
  "parse_expr s = (case chain s of (t, r) \<Rightarrow> parse_rest None (Name t) r)"

text \<open>
  The arithmetic of the objects involved.  Two strings or two lists can be added; every
  other use of a string or a list is a TypeError; a float division by zero raises.
\<close>

fun binop :: "operator \<Rightarrow> pyval \<Rightarrow> pyval \<Rightarrow> error + pyval" where
  "binop Add (Float a) (Float b) = Inr (Float (a + b))"
| "binop Add (Str a) (Str b) = Inr (Str (a @ b))"
| "binop Add (StrList a) (StrList b) = Inr (StrList (a @ b))"
| "binop Sub (Float a) (Float b) = Inr (Float (a - b))"
| "binop Mult (Float a) (Float b) = Inr (Float (a * b))"
| "binop Div (Float a) (Float b) = (if b = 0 then Inl ZeroDivisionError else Inr (Float (a / b)))"
| "binop oper x y = Inl TypeError"

fun neg :: "pyval \<Rightarrow> error + pyval" where
  "neg (Float a) = Inr (Float (- a))"
| "neg x = Inl TypeError"

text \<open>Evaluation of the tree: left operand, right operand, then the operation.\<close>

fun aval :: "(string \<rightharpoonup> pyval) \<Rightarrow> expr \<Rightarrow> error + pyval" where
  "aval D (Name x) = (case D x of None \<Rightarrow> Inl (NameError x) | Some a \<Rightarrow> Inr a)"
| "aval D (BinOp l oper r) =
     (case aval D l of
        Inl e \<Rightarrow> Inl e
      | Inr a \<Rightarrow> (case aval D r of Inl e \<Rightarrow> Inl e | Inr b \<Rightarrow> binop oper a b))"

text \<open>
  \<open>eval(Rt.objective)\<close>.  In the embedded fragment it is reached only after \<open>exec\<close>
  has bound every token, so the string is a chain of identifiers; every name of it is
  then in the local dictionary, except \<open>result\<close>, which no module-level name or builtin
  provides either.  Any other string is outside the fragment.
\<close>

definition eval_py :: "string \<Rightarrow> (string \<rightharpoonup> pyval) \<Rightarrow> error + pyval" where
  "eval_py s D = (if list_all is_identifier (splt s) then aval D (parse_expr s) else Inl (Unmodelled s))"

text \<open>\<open>compute_obj\<close>; the call of the logger has no effect on the result.\<close>

definition compute_obj :: "routine \<Rightarrow> res_dict \<Rightarrow> error + pyval" where
  "compute_obj Rt res_var_dict =
     (let var_list = splt (objective Rt) in
      case exec_loop res_var_dict var_list var_list Map.empty of
        Inl e \<Rightarrow> Inl e
      | Inr D \<Rightarrow>
          (case eval_py (objective Rt) (sync_locals var_list (last var_list) D) of
             Inl e \<Rightarrow> Inl e
           | Inr result \<Rightarrow> neg result))"

text \<open>
  The variables of \<open>compute_obj\<close> itself and the global that \<open>exec\<close> reads: a token
  of one of these names is not an ordinary binding.
\<close>

definition own_names :: "string list" where
  "own_names = [''var_list'', ''v'', ''result'', ''res_var_dict'']"

subsection \<open>The value of an expression, as the specification words it\<close>

text \<open>
  Each token is bound to the last element of its history in the result dictionary, and
  the arithmetic expression is evaluated under those bindings.  There is no value when a
  token has no history element or a divisor is zero.
\<close>

definition has_history :: "res_dict \<Rightarrow> string \<Rightarrow> bool" where
  "has_history res_var_dict t =
     (case map_of res_var_dict t of None \<Rightarrow> False | Some (name, listval, rest) \<Rightarrow> listval \<noteq> [])"

definition token_binding :: "res_dict \<Rightarrow> string \<Rightarrow> real option" where
  "token_binding res_var_dict t =
     (case map_of res_var_dict t of
        None \<Rightarrow> None
      | Some (name, listval, rest) \<Rightarrow> (if listval = [] then None else Some (last listval)))"

fun arith_op :: "operator \<Rightarrow> real \<Rightarrow> real \<Rightarrow> real option" where
  "arith_op Add a b = Some (a + b)"
| "arith_op Sub a b = Some (a - b)"
| "arith_op Mult a b = Some (a * b)"
| "arith_op Div a b = (if b = 0 then None else Some (a / b))"

fun arith_value :: "(string \<Rightarrow> real option) \<Rightarrow> expr \<Rightarrow> real option" where
  "arith_value b (Name x) = b x"
| "arith_value b (BinOp l oper r) =
     (case arith_value b l of
        None \<Rightarrow> None
      | Some x \<Rightarrow> (case arith_value b r of None \<Rightarrow> None | Some y \<Rightarrow> arith_op oper x y))"

fun names :: "expr \<Rightarrow> string set" where
  "names (Name x) = {x}"
| "names (BinOp l oper r) = names l \<union> names r"

section \<open>The two components: \<open>objective_function\<close> and \<open>constraint\<close>\<close>

text \<open>
  The classes derive from \<open>om.ExplicitComponent\<close> of the optimisation framework.  What a
  \<open>setup\<close> method does is the sequence of declarations it sends to the framework.
  \<open>add_output(Rt.objective)\<close> gives no value (the framework's default);
  \<open>listval[0]\<close> raises IndexError on an empty history.
\<close>

text \<open>
  The components of a dictionary item \<open>(key, (name, listval, ...))\<close> that the loops of
  both dictionaries unpack.
\<close>

definition item_key :: "string \<times> 'a \<Rightarrow> string" where
  "item_key it = fst it"

definition item_name :: "string \<times> string \<times> 'a \<Rightarrow> string" where
  "item_name it = fst (snd it)"

definition item_listval :: "string \<times> string \<times> real list \<times> 'a \<Rightarrow> real list" where
  "item_listval it = fst (snd (snd it))"

datatype component_call =
    om_add_input string real
  | om_add_output string "real option"
  | om_declare_partials string string string

fun setup_inputs :: "design_dict \<Rightarrow> error + component_call list" where
  "setup_inputs [] = Inr []"
| "setup_inputs ((key, name, listval, minval, maxval, setcommand, getcommand) # rest) =
     (if listval = [] then Inl IndexError
      else (case setup_inputs rest of
              Inl e \<Rightarrow> Inl e
            | Inr calls \<Rightarrow> Inr (om_add_input key (hd listval) # calls)))"

definition objective_function_setup :: "routine \<Rightarrow> design_dict \<Rightarrow> error + component_call list" where
  "objective_function_setup rt dd =
     (case setup_inputs dd of
        Inl e \<Rightarrow> Inl e
      | Inr calls \<Rightarrow>
          Inr (calls @ [om_add_output (objective rt) None, om_declare_partials ''*'' ''*'' ''exact'']))"

fun constraint_setup :: "res_dict \<Rightarrow> error + component_call list" where
  "constraint_setup [] = Inr []"
| "constraint_setup ((key, name, listval, lower_bound, upper_bound, getcommand) # rest) =
     (if listval = [] then Inl IndexError
      else (case constraint_setup rest of
              Inl e \<Rightarrow> Inl e
            | Inr calls \<Rightarrow> Inr (om_add_output name (Some (hd listval)) # calls)))"

text \<open>
  \<open>constraint.compute\<close>: \<open>outputs[name] = listval[-1]\<close> for every entry, in the order of
  the dictionary; \<open>outputs\<close> is the framework's vector of the component's outputs.
\<close>

fun constraint_compute :: "res_dict \<Rightarrow> (string \<rightharpoonup> real) \<Rightarrow> error + (string \<rightharpoonup> real)" where
  "constraint_compute [] outputs = Inr outputs"
| "constraint_compute ((key, name, listval, lower_bound, upper_bound, getcmd) # rest) outputs =
     (if listval = [] then Inl IndexError
      else constraint_compute rest (outputs(name \<mapsto> last listval)))"

section \<open>The optimisation problem that \<open>run_routine\<close> builds\<close>

text \<open>
  The state of the \<open>om.Problem\<close> after the calls of \<open>run_routine\<close> that precede
  \<open>prob.setup()\<close>: the subsystems in the order they were added, the driver with the
  options set on it, and the registrations made on the model.
\<close>

datatype component = IndepVarComp | objective_function | constraint

datatype om_driver =
    Driver
  | DOEDriver_UniformGenerator nat
  | ScipyOptimizeDriver string nat

record problem =
  subsystems :: "(string \<times> component) list"
  prob_driver :: om_driver
  indeps_outputs :: "(string \<times> real \<times> int \<times> int) list"
  connections :: "(string \<times> string) list"
  design_vars :: "(string \<times> real option \<times> real option) list"
  constraints :: "(string \<times> real \<times> real) list"
  objectives :: "string list"
  recorders :: "string list"

definition om_Problem :: problem where
  "om_Problem = \<lparr>subsystems = [], prob_driver = Driver, indeps_outputs = [], connections = [],
     design_vars = [], constraints = [], objectives = [], recorders = []\<rparr>"

text \<open>
  \<open>int(np.log10(abs(x)+1)+1)\<close>, the reference value given to the framework for a design
  variable; the argument of \<open>int\<close> is positive, so it rounds down.
\<close>

definition norm_ref :: "real \<Rightarrow> int" where
  "norm_ref x = \<lfloor>log 10 (\<bar>x\<bar> + 1) + 1\<rfloor>"

text \<open>
  The loop over the design variables: \<open>norm\<close>, then the output of \<open>indeps\<close>, the
  connection and the design variable with its bounds.
\<close>

fun design_var_loop :: "design_dict \<Rightarrow> problem \<Rightarrow> error + problem" where
  "design_var_loop [] prob = Inr prob"
| "design_var_loop ((key, name, listval, minval, maxval, setcommand, getcommand) # rest) prob =
     (if listval = [] then Inl IndexError
      else
        (let norm = norm_ref (hd listval) in
         design_var_loop rest
           (prob\<lparr>indeps_outputs := indeps_outputs prob @ [(key, hd listval, norm, 0)],
                 connections := connections prob @ [(''indeps.'' @ key, ''objective.'' @ key)],
                 design_vars := design_vars prob @ [(''indeps.'' @ key, minval, maxval)]\<rparr>)))"

text \<open>
  \<open>model.add_constraint(name, lower, upper)\<close>.  The framework keeps the constraints and
  the objectives of a model under their names and refuses a name it already holds with a
  RuntimeError.
\<close>

definition add_constraint :: "string \<Rightarrow> real \<Rightarrow> real \<Rightarrow> problem \<Rightarrow> error + problem" where
  "add_constraint name lower upper prob =
     (if name \<in> fst ` set (constraints prob) \<or> name \<in> set (objectives prob)
      then Inl (RuntimeError name)
      else Inr (prob\<lparr>constraints := constraints prob @ [(name, lower, upper)]\<rparr>))"

text \<open>
  The loop over the result variables: only the name \<open>cms\<close> is tested, and the bounds
  given are the two literals.  A second result variable of that name makes the second
  \<open>add_constraint\<close> raise.
\<close>

fun constraint_loop :: "res_dict \<Rightarrow> problem \<Rightarrow> error + problem" where
  "constraint_loop [] prob = Inr prob"
| "constraint_loop ((key, name, listval, minval, maxval, getcommand) # rest) prob =
     (if name = ''cms''
      then (case add_constraint (''const.'' @ name) (- (1 / 10)) (1 / 10) prob of
              Inl e \<Rightarrow> Inl e
            | Inr prob' \<Rightarrow> constraint_loop rest prob')
      else constraint_loop rest prob)"

text \<open>
  The choice of the driver: \<open>if Rt.type == 'DoE': ... elif Rt.type == 'Optim': ...\<close>,
  without an \<open>else\<close>.  The first branch makes a design-of-experiments driver with a
  uniform generator of 10 samples, the second a SciPy optimizer driver whose option
  \<open>optimizer\<close> is \<open>Rt.driver\<close> and whose option \<open>maxiter\<close> is 10.
\<close>

definition choose_driver :: "routine \<Rightarrow> om_driver option" where
  "choose_driver rt =
     (if type rt = ''DoE'' then Some (DOEDriver_UniformGenerator 10)
      else if type rt = ''Optim'' then Some (ScipyOptimizeDriver (driver rt) 10)
      else None)"

text \<open>
  The local variable \<open>driver\<close> is assigned in the two branches only (\<open>drv\<close> below); with
  any other routine type it is unbound when \<open>driver.add_recorder\<close> is reached, which
  raises UnboundLocalError.  The problem is local to \<open>run_routine\<close>, so nothing of it is
  left when building fails.
\<close>

definition build_problem :: "routine \<Rightarrow> design_dict \<Rightarrow> res_dict \<Rightarrow> error + problem" where
  "build_problem rt dd rd =
     (let prob = om_Problem\<lparr>subsystems :=
                   [(''indeps'', IndepVarComp), (''objective'', objective_function),
                    (''const'', constraint)]\<rparr>;
          drv = choose_driver rt;
          prob = (case drv of None \<Rightarrow> prob | Some d \<Rightarrow> prob\<lparr>prob_driver := d\<rparr>)
      in case design_var_loop dd prob of
           Inl e \<Rightarrow> Inl e
         | Inr prob \<Rightarrow>
            (case constraint_loop rd prob of
               Inl e \<Rightarrow> Inl e
             | Inr prob \<Rightarrow>
                (let prob = prob\<lparr>objectives := objectives prob @ [''objective.'' @ objective rt]\<rparr>
                 in case drv of
                      None \<Rightarrow> Inl (UnboundLocalError ''driver'')
                    | Some d \<Rightarrow> Inr (prob\<lparr>recorders := recorders prob @ [''../Optimisation/Driver_recorder.sql'']\<rparr>))))"

subsection \<open>The kinds of routine, as the specification names them\<close>

text \<open>
  The specification gives a routine one of two kinds, \<open>DesignOfExperiments\<close> and
  \<open>Optimisation\<close>.  In the sources the kind is the string \<open>Rt.type\<close>, and the two
  kinds are written \<open>DoE\<close> and \<open>Optim\<close> (the main block calls
  \<open>routine_setup(module_list, 'Optim')\<close>); a string that is neither is no kind.
\<close>

datatype routine_kind = DesignOfExperiments | Optimisation

definition spec_kind :: "string \<Rightarrow> routine_kind option" where
  "spec_kind t =
     (if t = ''DoE'' then Some DesignOfExperiments
      else if t = ''Optim'' then Some Optimisation
      else None)"

section \<open>Module state, exceptions and collaborators\<close>

text \<open>
  The module-level variables \<open>Rt\<close>, \<open>counter\<close>, \<open>design_var_dict\<close> and
  \<open>res_var_dict\<close>, together with everything outside the process that the functions
  read and write (the CPACS files, the working directories): the \<open>world\<close>, of a type
  left open.
\<close>

record 'w state =
  Rt :: routine
  counter :: nat
  design_var_dict :: design_dict
  res_var_dict :: res_dict
  world :: 'w

text \<open>
  A statement sequence that may raise: it maps the state to a result or an exception and
  the state reached.  What was assigned before an exception stays assigned.
\<close>

type_synonym ('a, 'w) prog = "'w state \<Rightarrow> (error + 'a) \<times> 'w state"

definition returnE :: "'a \<Rightarrow> ('a, 'w) prog" where
  "returnE x = (\<lambda>s. (Inr x, s))"

definition bindE :: "('a, 'w) prog \<Rightarrow> ('a \<Rightarrow> ('b, 'w) prog) \<Rightarrow> ('b, 'w) prog" where
  "bindE m f = (\<lambda>s. case m s of (Inl e, s') \<Rightarrow> (Inl e, s') | (Inr x, s') \<Rightarrow> f x s')"

definition liftE :: "error + 'a \<Rightarrow> ('a, 'w) prog" where
  "liftE r = (\<lambda>s. (r, s))"

definition gets :: "('w state \<Rightarrow> 'a) \<Rightarrow> ('a, 'w) prog" where
  "gets f = (\<lambda>s. (Inr (f s), s))"

definition modify :: "('w state \<Rightarrow> 'w state) \<Rightarrow> (unit, 'w) prog" where
  "modify f = (\<lambda>s. (Inr (), f s))"

text \<open>A call that works on the world only.\<close>

definition callW :: "('w \<Rightarrow> (error + 'a) \<times> 'w) \<Rightarrow> ('a, 'w) prog" where
  "callW f = (\<lambda>s. case f (world s) of (r, w) \<Rightarrow> (r, s\<lparr>world := w\<rparr>))"

text \<open>
  The functions that the module imports from the rest of the package and that are not
  part of these sources (\<open>moduleinterfaces\<close>, \<open>cpacsfunctions\<close>, \<open>ceasiompyfunctions\<close>,
  \<open>apmfunctions\<close>, \<open>workflowfunctions\<close>, \<open>CPACSUpdater\<close>, \<open>optimfunctions\<close>, the
  dictionary module) are parameters: any of them may raise but the two path functions.
  \<open>'t\<close> is a Tixi document handle and \<open>'c\<close> the coefficients of an aeromap.
  \<open>read_result\<close> is the read of one value at the get accessor of a result variable, and
  \<open>driver_points\<close> the design points that the framework's driver would propose one
  after the other if nothing stopped it (any finite sequence; a point gives a value for
  every declared input).
\<close>

record ('w, 't, 'c) collaborators =
  get_toolinput_file_path :: "string \<Rightarrow> string"
  get_tooloutput_file_path :: "string \<Rightarrow> string"
  open_tixi :: "string \<Rightarrow> 'w \<Rightarrow> (error + 't) \<times> 'w"
  close_tixi :: "'t \<Rightarrow> string \<Rightarrow> 'w \<Rightarrow> (error + unit) \<times> 'w"
  updateTextElement :: "'t \<Rightarrow> string \<Rightarrow> string \<Rightarrow> error + 't"
  get_value :: "'t \<Rightarrow> string \<Rightarrow> error + pyval"
  create_new_wkdir :: "string \<Rightarrow> 'w \<Rightarrow> (error + string) \<times> 'w"
  get_aeromap :: "'t \<Rightarrow> pyval \<Rightarrow> error + 'c"
  delete_aeromap :: "'t \<Rightarrow> pyval \<Rightarrow> error + 't"
  create_empty_aeromap :: "'t \<Rightarrow> pyval \<Rightarrow> string \<Rightarrow> error + 't"
  save_parameters :: "'t \<Rightarrow> pyval \<Rightarrow> 'c \<Rightarrow> error + 't"
  update_cpacs_file :: "string \<Rightarrow> string \<Rightarrow> design_dict \<Rightarrow> 'w \<Rightarrow> (error + unit) \<times> 'w"
  copy_module_to_module :: "string \<Rightarrow> string \<Rightarrow> string \<Rightarrow> string \<Rightarrow> 'w \<Rightarrow> (error + unit) \<times> 'w"
  run_subworkflow :: "string list \<Rightarrow> 'w \<Rightarrow> (error + unit) \<times> 'w"
  read_result :: "'t \<Rightarrow> string \<Rightarrow> error + real"
  init_dict :: "string \<Rightarrow> 'w \<Rightarrow> (error + res_dict \<times> design_dict) \<times> 'w"
  now :: "'w \<Rightarrow> string"
  read_results :: "'w \<Rightarrow> (error + unit) \<times> 'w"
  driver_points :: "om_driver \<Rightarrow> (string \<Rightarrow> real) list"

section \<open>One iteration: \<open>one_iteration\<close>\<close>

definition SU2_XPATH :: string where
  "SU2_XPATH = ''/cpacs/toolspecific/CEASIOMpy/aerodynamics/su2''"

definition WKDIR_XPATH :: string where
  "WKDIR_XPATH = ''/cpacs/toolspecific/CEASIOMpy/filesPath/wkdirPath''"

text \<open>\<open>'{}'.format(counter)\<close>: the decimal digits of the counter.\<close>

function str_nat :: "nat \<Rightarrow> string" where
  "str_nat n = (if n < 10 then [char_of (48 + n)] else str_nat (n div 10) @ [char_of (48 + n mod 10)])"
  by pat_completeness auto
termination
  by (relation "measure id") auto

text \<open>\<open>xs[0]\<close> and \<open>xs[-1]\<close> raise IndexError on an empty list.\<close>

definition first_item :: "'a list \<Rightarrow> error + 'a" where
  "first_item xs = (case xs of [] \<Rightarrow> Inl IndexError | x # rest \<Rightarrow> Inr x)"

definition last_item :: "'a list \<Rightarrow> error + 'a" where
  "last_item xs = (if xs = [] then Inl IndexError else Inr (last xs))"

text \<open>
  Modelled from the spec: \<open>update_res_var_dict\<close> is imported from
  \<open>ceasiompy.Optimisation.func.dictionnary\<close>, which is not among the sources.  The
  specification: for every ResultVariableDict entry, it reads the current value at its get
  path from the freshly produced result XML and appends it to the history; it fails if the
  path is missing in that document, and the failure is propagated, not retried.  The
  entries are visited in the order of the dictionary and an entry already appended to
  stays so when a later read fails.
\<close>

fun update_entries :: "('t \<Rightarrow> string \<Rightarrow> error + real) \<Rightarrow> 't \<Rightarrow> res_dict \<Rightarrow> (error + unit) \<times> res_dict" where
  "update_entries rd_val tixi [] = (Inr (), [])"
| "update_entries rd_val tixi ((key, name, listval, lower_bound, upper_bound, getcommand) # rest) =
     (case rd_val tixi getcommand of
        Inl e \<Rightarrow> (Inl e, (key, name, listval, lower_bound, upper_bound, getcommand) # rest)
      | Inr x \<Rightarrow>
          (case update_entries rd_val tixi rest of
             (r, rest') \<Rightarrow> (r, (key, name, listval @ [x], lower_bound, upper_bound, getcommand) # rest')))"

definition update_res_var_dict :: "('w, 't, 'c) collaborators \<Rightarrow> 't \<Rightarrow> (unit, 'w) prog" where
  "update_res_var_dict X tixi =
     (\<lambda>s. case update_entries (read_result X) tixi (res_var_dict s) of
             (r, rd) \<Rightarrow> (r, s\<lparr>res_var_dict := rd\<rparr>))"

text \<open>
  \<open>one_iteration\<close>, statement by statement; the calls of the logger are left out.  The
  test \<open>counter % 1 == 0\<close> is kept as written.
\<close>

definition one_iteration :: "('w, 't, 'c) collaborators \<Rightarrow> (pyval, 'w) prog" where
  "one_iteration X =
     bindE (modify (\<lambda>s. s\<lparr>counter := counter s + 1\<rparr>)) (\<lambda>u.
     bindE (returnE (get_toolinput_file_path X ''CPACSUpdater'')) (\<lambda>cpacs_path.
     bindE (returnE (get_tooloutput_file_path X ''CPACSUpdater'')) (\<lambda>cpacs_out_path.
     bindE (callW (open_tixi X cpacs_path)) (\<lambda>tixi.
     bindE (gets Rt) (\<lambda>rt.
     bindE (callW (create_new_wkdir X (date rt))) (\<lambda>wkdir_path.
     bindE (liftE (updateTextElement X tixi WKDIR_XPATH wkdir_path)) (\<lambda>tixi.
     bindE (liftE (get_value X tixi (SU2_XPATH @ ''/aeroMapUID''))) (\<lambda>aeromap_uid.
     bindE (liftE (get_aeromap X tixi aeromap_uid)) (\<lambda>Coef.
     bindE (liftE (delete_aeromap X tixi aeromap_uid)) (\<lambda>tixi.
     bindE (liftE (create_empty_aeromap X tixi aeromap_uid ''test_optim'')) (\<lambda>tixi.
     bindE (liftE (save_parameters X tixi aeromap_uid Coef)) (\<lambda>tixi.
     bindE (callW (close_tixi X tixi cpacs_path)) (\<lambda>u.
     bindE (gets design_var_dict) (\<lambda>dd.
     bindE (callW (update_cpacs_file X cpacs_path cpacs_out_path dd)) (\<lambda>u.
     bindE (gets counter) (\<lambda>n.
     bindE (if n mod 1 = 0
            then callW (copy_module_to_module X ''CPACSUpdater'' ''out'' ''Optimisation''
                          (''iter_'' @ str_nat n))
            else returnE ()) (\<lambda>u.
     bindE (liftE (first_item (modules rt))) (\<lambda>first_module.
     bindE (callW (copy_module_to_module X ''CPACSUpdater'' ''out'' first_module ''in'')) (\<lambda>u.
     bindE (callW (run_subworkflow X (modules rt))) (\<lambda>u.
     bindE (liftE (last_item (modules rt))) (\<lambda>last_module.
     bindE (callW (copy_module_to_module X last_module ''out'' ''CPACSUpdater'' ''in'')) (\<lambda>u.
     bindE (returnE (get_tooloutput_file_path X last_module)) (\<lambda>cpacs_results_path.
     bindE (callW (open_tixi X cpacs_results_path)) (\<lambda>tixi.
     bindE (update_res_var_dict X tixi) (\<lambda>u.
     bindE (gets (\<lambda>s. compute_obj (Rt s) (res_var_dict s))) liftE)))))))))))))))))))))))))"

text \<open>
  The statements of \<open>one_iteration\<close> that come before the call of \<open>run_subworkflow\<close>,
  on their own, giving the routine they have read: they are used to say in which state
  the module chain starts.
\<close>

definition before_subworkflow :: "('w, 't, 'c) collaborators \<Rightarrow> (routine, 'w) prog" where
  "before_subworkflow X =
     bindE (modify (\<lambda>s. s\<lparr>counter := counter s + 1\<rparr>)) (\<lambda>u.
     bindE (returnE (get_toolinput_file_path X ''CPACSUpdater'')) (\<lambda>cpacs_path.
     bindE (returnE (get_tooloutput_file_path X ''CPACSUpdater'')) (\<lambda>cpacs_out_path.
     bindE (callW (open_tixi X cpacs_path)) (\<lambda>tixi.
     bindE (gets Rt) (\<lambda>rt.
     bindE (callW (create_new_wkdir X (date rt))) (\<lambda>wkdir_path.
     bindE (liftE (updateTextElement X tixi WKDIR_XPATH wkdir_path)) (\<lambda>tixi.
     bindE (liftE (get_value X tixi (SU2_XPATH @ ''/aeroMapUID''))) (\<lambda>aeromap_uid.
     bindE (liftE (get_aeromap X tixi aeromap_uid)) (\<lambda>Coef.
     bindE (liftE (delete_aeromap X tixi aeromap_uid)) (\<lambda>tixi.
     bindE (liftE (create_empty_aeromap X tixi aeromap_uid ''test_optim'')) (\<lambda>tixi.
     bindE (liftE (save_parameters X tixi aeromap_uid Coef)) (\<lambda>tixi.
     bindE (callW (close_tixi X tixi cpacs_path)) (\<lambda>u.
     bindE (gets design_var_dict) (\<lambda>dd.
     bindE (callW (update_cpacs_file X cpacs_path cpacs_out_path dd)) (\<lambda>u.
     bindE (gets counter) (\<lambda>n.
     bindE (if n mod 1 = 0
            then callW (copy_module_to_module X ''CPACSUpdater'' ''out'' ''Optimisation''
                          (''iter_'' @ str_nat n))
            else returnE ()) (\<lambda>u.
     bindE (liftE (first_item (modules rt))) (\<lambda>first_module.
     bindE (callW (copy_module_to_module X ''CPACSUpdater'' ''out'' first_module ''in'')) (\<lambda>u.
     returnE rt)))))))))))))))))))"

text \<open>The statements that follow the call of \<open>run_subworkflow\<close>.\<close>

definition after_subworkflow :: "('w, 't, 'c) collaborators \<Rightarrow> routine \<Rightarrow> (pyval, 'w) prog" where
  "after_subworkflow X rt =
     bindE (liftE (last_item (modules rt))) (\<lambda>last_module.
     bindE (callW (copy_module_to_module X last_module ''out'' ''CPACSUpdater'' ''in'')) (\<lambda>u.
     bindE (returnE (get_tooloutput_file_path X last_module)) (\<lambda>cpacs_results_path.
     bindE (callW (open_tixi X cpacs_results_path)) (\<lambda>tixi.
     bindE (update_res_var_dict X tixi) (\<lambda>u.
     bindE (gets (\<lambda>s. compute_obj (Rt s) (res_var_dict s))) liftE)))))"

section \<open>The components at work and the routine\<close>

text \<open>
  \<open>objective_function.compute\<close>: the value \<open>inputs[key][0]\<close> of every design variable
  is appended to its history, then \<open>one_iteration\<close> gives the value of the output.
\<close>

fun append_inputs :: "(string \<Rightarrow> real) \<Rightarrow> design_dict \<Rightarrow> design_dict" where
  "append_inputs inputs [] = []"
| "append_inputs inputs ((key, name, listval, minval, maxval, setcommand, getcommand) # rest) =
     (key, name, listval @ [inputs key], minval, maxval, setcommand, getcommand)
       # append_inputs inputs rest"

definition objective_function_compute :: "('w, 't, 'c) collaborators \<Rightarrow> (string \<Rightarrow> real) \<Rightarrow> (pyval, 'w) prog" where
  "objective_function_compute X inputs =
     bindE (modify (\<lambda>s. s\<lparr>design_var_dict := append_inputs inputs (design_var_dict s)\<rparr>)) (\<lambda>u.
     one_iteration X)"

text \<open>
  Modelled from the spec: the evaluation of the model belongs to the optimisation
  framework, which is not part of the sources.  The specification: the evaluation order
  is fixed by the framework (objective before constraints), the constraint component
  having no inputs and mirroring the state that the evaluation of the objective has
  produced.  One evaluation runs the compute of each component in the order in which
  \<open>run_routine\<close> has added them to the model, and an exception ends it.
\<close>

record model_outputs =
  objective_output :: "pyval option"
  constraint_outputs :: "string \<rightharpoonup> real"

fun run_component :: "('w, 't, 'c) collaborators \<Rightarrow> (string \<Rightarrow> real) \<Rightarrow> component \<Rightarrow> model_outputs \<Rightarrow> (model_outputs, 'w) prog" where
  "run_component X inputs IndepVarComp out = returnE out"
| "run_component X inputs objective_function out =
     bindE (objective_function_compute X inputs) (\<lambda>v. returnE (out\<lparr>objective_output := Some v\<rparr>))"
| "run_component X inputs constraint out =
     bindE (gets res_var_dict) (\<lambda>rd.
     bindE (liftE (constraint_compute rd (constraint_outputs out))) (\<lambda>outs.
     returnE (out\<lparr>constraint_outputs := outs\<rparr>)))"

fun run_components :: "('w, 't, 'c) collaborators \<Rightarrow> (string \<Rightarrow> real) \<Rightarrow> (string \<times> component) list \<Rightarrow> model_outputs \<Rightarrow> (model_outputs, 'w) prog" where
  "run_components X inputs [] out = returnE out"
| "run_components X inputs ((name, c) # rest) out =
     bindE (run_component X inputs c out) (run_components X inputs rest)"

definition run_model :: "('w, 't, 'c) collaborators \<Rightarrow> problem \<Rightarrow> (string \<Rightarrow> real) \<Rightarrow> (model_outputs, 'w) prog" where
  "run_model X prob inputs =
     run_components X inputs (subsystems prob) \<lparr>objective_output = None, constraint_outputs = Map.empty\<rparr>"

text \<open>
  Modelled from the spec: the driver, too, belongs to the framework.  The specification:
  the driver repeatedly calls the objective component, which calls the iteration, and the
  run is terminal when the stopping criterion of the driver, the iteration cap, is
  reached.  Here the driver evaluates the model once at each point it proposes, in turn
  (\<open>evaluate_points\<close>), an exception ends the run, and no point beyond the cap is
  evaluated.  The cap is the option \<open>maxiter\<close> of the optimizer driver and the number
  of samples of the design-of-experiments driver; the default driver of a problem, which
  \<open>run_routine\<close> never runs, evaluates the model once.
\<close>

fun evaluate_points :: "('w, 't, 'c) collaborators \<Rightarrow> problem \<Rightarrow> (string \<Rightarrow> real) list \<Rightarrow> (model_outputs list, 'w) prog" where
  "evaluate_points X prob [] = returnE []"
| "evaluate_points X prob (x # xs) =
     bindE (run_model X prob x) (\<lambda>out.
     bindE (evaluate_points X prob xs) (\<lambda>outs. returnE (out # outs)))"

fun max_evaluations :: "om_driver \<Rightarrow> nat" where
  "max_evaluations Driver = 1"
| "max_evaluations (DOEDriver_UniformGenerator num_samples) = num_samples"
| "max_evaluations (ScipyOptimizeDriver optimizer maxiter) = maxiter"

definition run_driver :: "('w, 't, 'c) collaborators \<Rightarrow> problem \<Rightarrow> (model_outputs list, 'w) prog" where
  "run_driver X prob =
     evaluate_points X prob
       (take (max_evaluations (prob_driver prob)) (driver_points X (prob_driver prob)))"

text \<open>
  \<open>run_routine\<close>: the problem is built, \<open>prob.setup()\<close> runs the setup of the two
  components, the driver runs, and the results are read for the plots.
\<close>

definition run_routine :: "('w, 't, 'c) collaborators \<Rightarrow> (unit, 'w) prog" where
  "run_routine X =
     bindE (gets (\<lambda>s. build_problem (Rt s) (design_var_dict s) (res_var_dict s))) (\<lambda>built.
     bindE (liftE built) (\<lambda>prob.
     bindE (gets (\<lambda>s. objective_function_setup (Rt s) (design_var_dict s))) (\<lambda>declared.
     bindE (liftE declared) (\<lambda>objective_ports.
     bindE (gets (\<lambda>s. constraint_setup (res_var_dict s))) (\<lambda>declared.
     bindE (liftE declared) (\<lambda>constraint_ports.
     bindE (run_driver X prob) (\<lambda>outs.
     callW (read_results X))))))))"

text \<open>\<open>routine_setup(modules, routine_type)\<close>.\<close>

definition routine_setup :: "('w, 't, 'c) collaborators \<Rightarrow> string list \<Rightarrow> string \<Rightarrow> (unit, 'w) prog" where
  "routine_setup X module_list routine_type =
     bindE (modify (\<lambda>s. s\<lparr>Rt := (Rt s)\<lparr>type := routine_type\<rparr>\<rparr>)) (\<lambda>u.
     bindE (modify (\<lambda>s. s\<lparr>Rt := (Rt s)\<lparr>modules := module_list\<rparr>\<rparr>)) (\<lambda>u.
     bindE (modify (\<lambda>s. s\<lparr>Rt := (Rt s)\<lparr>driver := ''COBYLA''\<rparr>\<rparr>)) (\<lambda>u.
     bindE (modify (\<lambda>s. s\<lparr>Rt := (Rt s)\<lparr>objective := ''cl/cd''\<rparr>\<rparr>)) (\<lambda>u.
     bindE (modify (\<lambda>s. s\<lparr>Rt := (Rt s)\<lparr>date := now X (world s)\<rparr>\<rparr>)) (\<lambda>u.
     bindE (liftE (first_item module_list)) (\<lambda>first_module.
     bindE (returnE (get_toolinput_file_path X first_module)) (\<lambda>cpacs_path.
     bindE (callW (init_dict X cpacs_path)) (\<lambda>dicts.
     bindE (modify (\<lambda>s. s\<lparr>res_var_dict := fst dicts, design_var_dict := snd dicts\<rparr>)) (\<lambda>u.
     bindE (callW (copy_module_to_module X first_module ''out'' ''Optimisation'' ''initial'')) (\<lambda>u.
     bindE (callW (copy_module_to_module X first_module ''out'' ''CPACSUpdater'' ''in'')) (\<lambda>u.
     run_routine X)))))))))))"

text \<open>
  Collaborators for the examples: the world holds nothing, every call succeeds except
  where said; the result document yields \<open>0.5\<close> at the accessor \<open>get_cl\<close> and \<open>0.1\<close>
  anywhere else; the dictionaries built at setup hold \<open>cl\<close>, \<open>cd\<close> and the design
  variable \<open>span\<close>; the driver proposes the single point \<open>31\<close>.  With \<open>X_many\<close>
  the driver has the twelve points \<open>31\<close> to \<open>42\<close> to propose.
\<close>

definition X_ok :: "(unit, unit, unit) collaborators" where
  "X_ok = \<lparr>
     get_toolinput_file_path = (\<lambda>m. m @ ''/ToolInput/ToolInput.xml''),
     get_tooloutput_file_path = (\<lambda>m. m @ ''/ToolOutput/ToolOutput.xml''),
     open_tixi = (\<lambda>p w. (Inr (), w)),
     close_tixi = (\<lambda>t p w. (Inr (), w)),
     updateTextElement = (\<lambda>t x v. Inr ()),
     get_value = (\<lambda>t x. Inr (Str ''aeromap'')),
     create_new_wkdir = (\<lambda>d w. (Inr (''wkdir_'' @ d), w)),
     get_aeromap = (\<lambda>t u. Inr ()),
     delete_aeromap = (\<lambda>t u. Inr ()),
     create_empty_aeromap = (\<lambda>t u n. Inr ()),
     save_parameters = (\<lambda>t u c. Inr ()),
     update_cpacs_file = (\<lambda>i out dd w. (Inr (), w)),
     copy_module_to_module = (\<lambda>a b c d w. (Inr (), w)),
     run_subworkflow = (\<lambda>ms w. (Inr (), w)),
     read_result = (\<lambda>t g. if g = ''get_cl'' then Inr (1 / 2) else Inr (1 / 10)),
     init_dict = (\<lambda>p w. (Inr ([(''cl'', ''cl'', [2 / 5], None, None, ''get_cl''),
                                  (''cd'', ''cd'', [1 / 10], None, None, ''get_cd'')],
                                 [(''span'', ''span'', [30], Some 20, Some 40, ''set_span'', ''get_span'')]), w)),
     now = (\<lambda>w. ''2020-06-04_12-00-00''),
     read_results = (\<lambda>w. (Inr (), w)),
     driver_points = (\<lambda>d. [\<lambda>key. 31])\<rparr>"

definition X_many :: "(unit, unit, unit) collaborators" where
  "X_many = X_ok\<lparr>driver_points := (\<lambda>d. map (\<lambda>v key. v) [31, 32, 33, 34, 35, 36, 37, 38, 39, 40, 41, 42])\<rparr>"

definition X_fail :: "(unit, unit, unit) collaborators" where
  "X_fail = X_ok\<lparr>run_subworkflow := (\<lambda>ms w. (Inl (External ''SU2Run''), w))\<rparr>"

definition s_example :: "unit state" where
  "s_example = \<lparr>
     Rt = \<lparr>type = ''Optim'', modules = [''SU2Run'', ''SkinFriction''], driver = ''COBYLA'',
           objective = ''cl/cd'', date = ''2020-06-04''\<rparr>,
     counter = 0,
     design_var_dict = [(''span'', ''span'', [30], Some 20, Some 40, ''set_span'', ''get_span'')],
     res_var_dict = [(''cl'', ''cl'', [2 / 5], None, None, ''get_cl''),
                     (''cd'', ''cd'', [1 / 10], None, None, ''get_cd'')],
     world = ()\<rparr>"

section \<open>Relations between the states before and after\<close>

text \<open>
  \<open>io_rel R m\<close>: whatever the outcome of \<open>m\<close>, result or exception, the state it
  reaches is related by \<open>R\<close> to the state it started in.  \<open>ok_rel R m\<close> says so for the
  runs of \<open>m\<close> that end without an exception.
\<close>

definition io_rel :: "('w state \<Rightarrow> 'w state \<Rightarrow> bool) \<Rightarrow> ('a, 'w) prog \<Rightarrow> bool" where
  "io_rel R m \<longleftrightarrow> (\<forall>s. R s (snd (m s)))"

definition ok_rel :: "('w state \<Rightarrow> 'w state \<Rightarrow> bool) \<Rightarrow> ('a, 'w) prog \<Rightarrow> bool" where
  "ok_rel R m \<longleftrightarrow> (\<forall>s v s'. m s = (Inr v, s') \<longrightarrow> R s s')"

text \<open>
  Histories that only grow.  \<open>extends old new\<close>: the dictionary has the same items in the
  same order and every old history is an initial segment of the new one, so no element was
  removed or overwritten.  \<open>grown_by n old new\<close>: moreover every history has exactly
  \<open>n\<close> elements more.
\<close>

definition extends :: "(string \<times> string \<times> real list \<times> 'a) list \<Rightarrow> (string \<times> string \<times> real list \<times> 'a) list \<Rightarrow> bool" where
  "extends old new \<longleftrightarrow>
     list_all2 (\<lambda>a b. item_key b = item_key a \<and> item_name b = item_name a \<and>
                       prefix (item_listval a) (item_listval b)) old new"

definition grown_by :: "nat \<Rightarrow> (string \<times> string \<times> real list \<times> 'a) list \<Rightarrow> (string \<times> string \<times> real list \<times> 'a) list \<Rightarrow> bool" where
  "grown_by n old new \<longleftrightarrow>
     list_all2 (\<lambda>a b. item_key b = item_key a \<and> item_name b = item_name a \<and>
                       prefix (item_listval a) (item_listval b) \<and>
                       length (item_listval b) = length (item_listval a) + n) old new"

text \<open>The same for the two dictionaries of a state.\<close>

definition same_dicts :: "'w state \<Rightarrow> 'w state \<Rightarrow> bool" where
  "same_dicts s s' \<longleftrightarrow>
     design_var_dict s' = design_var_dict s \<and> res_var_dict s' = res_var_dict s"

definition dicts_extend :: "'w state \<Rightarrow> 'w state \<Rightarrow> bool" where
  "dicts_extend s s' \<longleftrightarrow>
     extends (design_var_dict s) (design_var_dict s') \<and> extends (res_var_dict s) (res_var_dict s')"

definition dicts_grown :: "nat \<Rightarrow> nat \<Rightarrow> 'w state \<Rightarrow> 'w state \<Rightarrow> bool" where
  "dicts_grown m n s s' \<longleftrightarrow>
     grown_by m (design_var_dict s) (design_var_dict s') \<and> grown_by n (res_var_dict s) (res_var_dict s')"

text \<open>The routine is the one of the state before.\<close>

definition same_Rt :: "'w state \<Rightarrow> 'w state \<Rightarrow> bool" where
  "same_Rt s s' \<longleftrightarrow> Rt s' = Rt s"

text \<open>
  The counter of the calls of \<open>one_iteration\<close>: it is the one of the state before, or
  it has advanced by \<open>n\<close>, or by \<open>n\<close> at most.
\<close>

definition same_counter :: "'w state \<Rightarrow> 'w state \<Rightarrow> bool" where
  "same_counter s s' \<longleftrightarrow> counter s' = counter s"

definition counted :: "nat \<Rightarrow> 'w state \<Rightarrow> 'w state \<Rightarrow> bool" where
  "counted n s s' \<longleftrightarrow> counter s' = counter s + n"

definition counted_upto :: "nat \<Rightarrow> 'w state \<Rightarrow> 'w state \<Rightarrow> bool" where
  "counted_upto n s s' \<longleftrightarrow> counter s \<le> counter s' \<and> counter s' \<le> counter s + n"

section \<open>Module metadata: \<open>SkinFriction/__specs__.py\<close>\<close>

text \<open>
  Modelled from the spec: \<open>CPACSInOut\<close> and \<open>CEASIOM_XPATH\<close> are imported from
  \<open>ceasiompy.utils.moduleinterfaces\<close>, which is not among the sources.  The
  specification describes the metadata as a variable declaration
  \<open>{name, defaultValue, unit, description, xmlPath}\<close> per variable, split into an
  input list and an output list, and gives the tool-specific prefix in the paths it
  quotes, \<open>/cpacs/toolspecific/CEASIOMpy/...\<close>.  The fields carry the names of the
  keyword arguments the declarations are written with.
\<close>

record cpacs_entry =
  var_name :: string
  default_value :: "int option"
  unit :: string
  descr :: string
  cpacs_path :: string

record CPACSInOut =
  inputs :: "cpacs_entry list"
  outputs :: "cpacs_entry list"

definition CEASIOM_XPATH :: string where
  "CEASIOM_XPATH = ''/cpacs/toolspecific/CEASIOMpy''"

definition new_CPACSInOut :: CPACSInOut where
  "new_CPACSInOut = \<lparr>inputs = [], outputs = []\<rparr>"

definition add_input :: "cpacs_entry \<Rightarrow> CPACSInOut \<Rightarrow> CPACSInOut" where
  "add_input e c = c\<lparr>inputs := inputs c @ [e]\<rparr>"

definition add_output :: "cpacs_entry \<Rightarrow> CPACSInOut \<Rightarrow> CPACSInOut" where
  "add_output e c = c\<lparr>outputs := outputs c @ [e]\<rparr>"

text \<open>The six declarations of the module, in the order of the file.\<close>

definition SkinFriction_cpacs_inout :: CPACSInOut where
  "SkinFriction_cpacs_inout =
    (let c = new_CPACSInOut;
         c = add_input \<lparr>var_name = ''wetted_area'', default_value = None, unit = ''m^2'',
                descr = ''Wetted area of the aircraft (calculated by SU2)'',
                cpacs_path = CEASIOM_XPATH @ ''/geometry/analysis/wettedArea''\<rparr> c;
         c = add_input \<lparr>var_name = ''cruise_speed'', default_value = Some 272, unit = ''m/s'',
                descr = ''Aircraft cruise speed'',
                cpacs_path = CEASIOM_XPATH @ ''/ranges/cruiseSpeed''\<rparr> c;
         c = add_input \<lparr>var_name = ''cruise_alt'', default_value = Some 12000, unit = ''m'',
                descr = ''Aircraft cruise altitude'',
                cpacs_path = CEASIOM_XPATH @ ''/ranges/cruiseAltitude''\<rparr> c;
         c = add_output \<lparr>var_name = ''cd0'', default_value = None, unit = ''1'',
                descr = ''Skin friction drag coefficient'',
                cpacs_path = CEASIOM_XPATH @ ''/aerodynamics/su2/cd0''\<rparr> c;
         c = add_output \<lparr>var_name = ''wing_area'', default_value = None, unit = ''m^2'',
                descr = ''Wing area of the main (largest) wing'',
                cpacs_path = CEASIOM_XPATH @ ''/geometry/analysis/wingArea''\<rparr> c;
         c = add_output \<lparr>var_name = ''wing_span'', default_value = None, unit = ''m'',
                descr = ''Wing span of the main (largest) wing'',
                cpacs_path = CEASIOM_XPATH @ ''/geometry/analysis/wingSpan''\<rparr> c
     in c)"

section \<open>Properties of \<open>compute_obj\<close>\<close>

lemma splt_chain: "splt s = fst (chain s) # map snd (snd (chain s))"
  by (induction s) (auto split: prod.splits list.splits)

lemma names_close:
  "names (close acc t) = (case acc of None \<Rightarrow> {} | Some (l, oper) \<Rightarrow> names l) \<union> names t"
  by (cases acc) auto

lemma names_parse_rest:
  "names (parse_rest acc t r) =
     (case acc of None \<Rightarrow> {} | Some (l, oper) \<Rightarrow> names l) \<union> names t \<union> snd ` set r"
  by (induction acc t r rule: parse_rest.induct) (auto simp: names_close split: option.splits)

text \<open>The names that \<open>eval\<close> reads are exactly the tokens that the loop has bound.\<close>

lemma names_parse_expr: "names (parse_expr s) = set (splt s)"
  by (simp add: parse_expr_def splt_chain names_parse_rest split: prod.splits)

lemma sync_locals_other: "t \<notin> set own_names \<Longrightarrow> sync_locals vl v D t = D t"
  by (auto simp: sync_locals_def own_names_def)

lemma sync_locals_res: "sync_locals vl v D ''res_var_dict'' = D ''res_var_dict''"
  by (simp add: sync_locals_def)

lemma is_identifier_target: "is_identifier t \<Longrightarrow> t \<noteq> [] \<and> t \<notin> set kwlist"
  by (auto simp: is_identifier_def)

lemma exec_assign_ok:
  assumes "is_identifier t" "has_history d t" "D ''res_var_dict'' = None"
  shows "exec_assign d t D = Inr (D(t \<mapsto> Float (the (token_binding d t))))"
  using assms is_identifier_target[OF assms(1)]
  by (auto simp: exec_assign_def has_history_def token_binding_def split: option.splits)

lemma exec_loop_ok:
  assumes "\<forall>t\<in>set vs. is_identifier t \<and> t \<notin> set own_names \<and> has_history d t"
    and "D ''res_var_dict'' = None"
  shows "\<exists>D'. exec_loop d vl vs D = Inr D' \<and> D' ''res_var_dict'' = None \<and>
           (\<forall>t. t \<notin> set own_names \<longrightarrow>
              D' t = (if t \<in> set vs then Some (Float (the (token_binding d t))) else D t))"
  using assms
proof (induction vs arbitrary: D)
  case Nil
  then show ?case by simp
next
  case (Cons a vs)
  let ?D1 = "(sync_locals vl a D)(a \<mapsto> Float (the (token_binding d a)))"
  have a: "is_identifier a" "a \<notin> set own_names" "has_history d a"
    using Cons.prems by auto
  have step: "exec_assign d a (sync_locals vl a D) = Inr ?D1"
    using a Cons.prems(2) by (simp add: exec_assign_ok sync_locals_res)
  have ne: "a \<noteq> ''res_var_dict''"
    using a(2) by (auto simp: own_names_def)
  have r1: "?D1 ''res_var_dict'' = None"
    using ne Cons.prems(2) by (simp add: sync_locals_res)
  have "\<forall>t\<in>set vs. is_identifier t \<and> t \<notin> set own_names \<and> has_history d t"
    using Cons.prems(1) by simp
  from Cons.IH[of ?D1, OF this r1]
  obtain D' where D': "exec_loop d vl vs ?D1 = Inr D'" "D' ''res_var_dict'' = None"
    "\<forall>t. t \<notin> set own_names \<longrightarrow>
       D' t = (if t \<in> set vs then Some (Float (the (token_binding d t))) else ?D1 t)"
    by blast
  show ?case
    using D' step by (auto simp: sync_locals_other)
qed

lemma aval_arith_value:
  assumes "arith_value b e = Some x"
    and "\<forall>t\<in>names e. D t = Some (Float (the (b t)))"
  shows "aval D e = Inr (Float x)"
  using assms
proof (induction e arbitrary: x)
  case (Name t)
  then show ?case by simp
next
  case (BinOp l oper r)
  from BinOp.prems(1) obtain a c where ac:
    "arith_value b l = Some a" "arith_value b r = Some c" "arith_op oper a c = Some x"
    by (auto split: option.splits)
  have "aval D l = Inr (Float a)" "aval D r = Inr (Float c)"
    using BinOp.IH ac BinOp.prems(2) by auto
  moreover have "binop oper (Float a) (Float c) = Inr (Float x)"
    using ac(3) by (cases oper) (auto split: if_splits)
  ultimately show ?case by simp
qed

lemmas compute_obj_eval_defs =
  compute_obj_def eval_py_def parse_expr_def exec_assign_def sync_locals_def
  is_identifier_def id_start_def id_char_def kwlist_def is_op_def own_names_def
  has_history_def token_binding_def

text \<open>
  C1 (as stated): for every objective string and every dictionary in which each token
  has a non-empty history, \<open>compute_obj\<close> evaluates the expression to a value and returns
  its negation.  For \<open>cl/cd\<close> with \<open>cl = 0.5\<close> and \<open>cd = 0\<close> both tokens have a history,
  yet the division raises ZeroDivisionError and nothing is returned.
\<close>

theorem compute_obj_zero_divisor:
  "splt ''cl/cd'' = [''cl'', ''cd'']
   \<and> has_history [(''cl'', ''cl'', [1 / 2], None, None, ''''), (''cd'', ''cd'', [0], None, None, '''')] ''cl''
   \<and> has_history [(''cl'', ''cl'', [1 / 2], None, None, ''''), (''cd'', ''cd'', [0], None, None, '''')] ''cd''
   \<and> compute_obj \<lparr>type = ''Optim'', modules = [], driver = ''COBYLA'', objective = ''cl/cd'', date = ''''\<rparr>
        [(''cl'', ''cl'', [1 / 2], None, None, ''''), (''cd'', ''cd'', [0], None, None, '''')]
      = Inl ZeroDivisionError"
  by (simp add: compute_obj_eval_defs)

text \<open>
  C1 (amended): when every token of the objective is an identifier other than the names
  \<open>compute_obj\<close> uses itself, each token has a non-empty history, and the arithmetic
  expression has a value \<open>x\<close> under the bindings of each token to the last element of its
  history (no divisor is zero), \<open>compute_obj\<close> returns exactly \<open>- x\<close>.
\<close>

theorem compute_obj_returns_negated_value:
  assumes tok: "\<forall>t\<in>set (splt (objective rt)).
            is_identifier t \<and> t \<notin> set own_names \<and> has_history rd t"
    and val: "arith_value (token_binding rd) (parse_expr (objective rt)) = Some x"
  shows "compute_obj rt rd = Inr (Float (- x))"
proof -
  let ?s = "objective rt" and ?vl = "splt (objective rt)"
  from exec_loop_ok[of ?vl rd Map.empty ?vl] tok
  obtain D where D: "exec_loop rd ?vl ?vl Map.empty = Inr D"
    "\<forall>t. t \<notin> set own_names \<longrightarrow>
       D t = (if t \<in> set ?vl then Some (Float (the (token_binding rd t))) else None)"
    by auto
  let ?D = "sync_locals ?vl (last ?vl) D"
  have "\<forall>t\<in>names (parse_expr ?s). ?D t = Some (Float (the (token_binding rd t)))"
    using tok D(2) by (auto simp: names_parse_expr sync_locals_other)
  then have "aval ?D (parse_expr ?s) = Inr (Float x)"
    using val by (rule aval_arith_value[rotated])
  moreover have "list_all is_identifier ?vl"
    using tok by (simp add: list_all_iff)
  ultimately show ?thesis
    using D(1) by (simp add: compute_obj_def eval_py_def)
qed

text \<open>The example of the specification: \<open>cl/cd\<close> with \<open>cl = 0.5\<close>, \<open>cd = 0.1\<close> gives \<open>-5\<close>.\<close>

theorem compute_obj_returns_negated_value_witness:
  "arith_value
     (token_binding [(''cl'', ''cl'', [1 / 2], None, None, ''''), (''cd'', ''cd'', [1 / 10], None, None, '''')])
     (parse_expr ''cl/cd'') = Some 5
   \<and> compute_obj \<lparr>type = ''Optim'', modules = [], driver = ''COBYLA'', objective = ''cl/cd'', date = ''''\<rparr>
        [(''cl'', ''cl'', [1 / 2], None, None, ''''), (''cd'', ''cd'', [1 / 10], None, None, '''')]
      = Inr (Float (- 5))"
proof -
  let ?Rt = "\<lparr>type = ''Optim'', modules = [], driver = ''COBYLA'', objective = ''cl/cd'', date = ''''\<rparr>"
  let ?d = "[(''cl'', ''cl'', [1 / 2 :: real], None :: real option, None :: real option, ''''),
             (''cd'', ''cd'', [1 / 10], None, None, '''')]"
  have tok: "\<forall>t\<in>set (splt (objective ?Rt)).
               is_identifier t \<and> t \<notin> set own_names \<and> has_history ?d t"
    by (simp add: compute_obj_eval_defs)
  have val: "arith_value (token_binding ?d) (parse_expr (objective ?Rt)) = Some 5"
    by (simp add: compute_obj_eval_defs)
  from compute_obj_returns_negated_value[OF tok val] val show ?thesis
    by simp
qed

lemma exec_assign_unknown:
  assumes "is_identifier t" "map_of d t = None" "D ''res_var_dict'' = None"
  shows "exec_assign d t D = Inl (KeyError t)"
  using assms is_identifier_target[OF assms(1)] by (simp add: exec_assign_def)

lemma exec_assign_unknown_fails:
  assumes "map_of d t = None"
  shows "\<exists>e. exec_assign d t D = Inl e"
  using assms by (simp add: exec_assign_def split: option.splits)

lemma exec_loop_unknown_fails:
  assumes "t \<in> set vs" "map_of d t = None"
  shows "\<exists>e. exec_loop d vl vs D = Inl e"
  using assms
proof (induction vs arbitrary: D)
  case Nil
  then show ?case by simp
next
  case (Cons a vs)
  show ?case
  proof (cases "exec_assign d a (sync_locals vl a D)")
    case (Inl e)
    then show ?thesis by simp
  next
    case (Inr D')
    with exec_assign_unknown_fails[OF Cons.prems(2), of "sync_locals vl a D"]
    have "a \<noteq> t" by auto
    with Cons.prems have "t \<in> set vs" by simp
    from Cons.IH[OF this Cons.prems(2), of D'] Inr show ?thesis by simp
  qed
qed

lemma exec_loop_prefix:
  assumes "\<forall>u\<in>set pre. is_identifier u \<and> u \<noteq> ''res_var_dict'' \<and> has_history d u"
    and "D ''res_var_dict'' = None"
  shows "\<exists>D'. exec_loop d vl (pre @ rest) D = exec_loop d vl rest D' \<and> D' ''res_var_dict'' = None"
  using assms
proof (induction pre arbitrary: D)
  case Nil
  then show ?case by auto
next
  case (Cons a pre)
  let ?D1 = "(sync_locals vl a D)(a \<mapsto> Float (the (token_binding d a)))"
  have a: "is_identifier a" "a \<noteq> ''res_var_dict''" "has_history d a"
    using Cons.prems by auto
  have step: "exec_assign d a (sync_locals vl a D) = Inr ?D1"
    using a Cons.prems(2) by (simp add: exec_assign_ok sync_locals_res)
  have r1: "?D1 ''res_var_dict'' = None"
    using a(2) Cons.prems(2) by (simp add: sync_locals_res)
  have "\<forall>u\<in>set pre. is_identifier u \<and> u \<noteq> ''res_var_dict'' \<and> has_history d u"
    using Cons.prems(1) by simp
  from Cons.IH[of ?D1, OF this r1]
  obtain D' where D': "exec_loop d vl (pre @ rest) ?D1 = exec_loop d vl rest D'"
    "D' ''res_var_dict'' = None"
    by blast
  have "exec_loop d vl ((a # pre) @ rest) D = exec_loop d vl (pre @ rest) ?D1"
    using step by simp
  with D' show ?case by metis
qed

text \<open>
  C5 (amended): when the tokens of the objective are identifiers and one of them, \<open>t\<close>,
  is not a key of the result dictionary, \<open>compute_obj\<close> raises an exception and returns
  no value, whatever the dictionary holds; the exception is \<open>KeyError t\<close> (the
  specification's UndefinedVariableError) when every token before \<open>t\<close> has a non-empty
  history and none of them is called \<open>res_var_dict\<close>.
\<close>

theorem compute_obj_unknown_token:
  assumes ids: "list_all is_identifier (splt (objective rt))"
    and pos: "splt (objective rt) = pre @ t # post"
    and unk: "map_of rd t = None"
  shows "(\<exists>e. compute_obj rt rd = Inl e) \<and>
         ((\<forall>u\<in>set pre. u \<noteq> ''res_var_dict'' \<and> has_history rd u) \<longrightarrow>
            compute_obj rt rd = Inl (KeyError t))"
proof
  have "t \<in> set (splt (objective rt))" using pos by simp
  from exec_loop_unknown_fails[OF this unk]
  obtain e where "exec_loop rd (splt (objective rt)) (splt (objective rt)) Map.empty = Inl e"
    by blast
  then show "\<exists>e. compute_obj rt rd = Inl e"
    by (simp add: compute_obj_def)
next
  show "(\<forall>u\<in>set pre. u \<noteq> ''res_var_dict'' \<and> has_history rd u) \<longrightarrow>
          compute_obj rt rd = Inl (KeyError t)"
  proof
    assume good: "\<forall>u\<in>set pre. u \<noteq> ''res_var_dict'' \<and> has_history rd u"
    let ?vl = "splt (objective rt)"
    have idt: "is_identifier t" and idpre: "\<forall>u\<in>set pre. is_identifier u"
      using ids pos by (simp_all add: list_all_iff)
    have "\<forall>u\<in>set pre. is_identifier u \<and> u \<noteq> ''res_var_dict'' \<and> has_history rd u"
      using good idpre by simp
    from exec_loop_prefix[of pre rd Map.empty ?vl "t # post", OF this]
    obtain D' where D': "exec_loop rd ?vl (pre @ t # post) Map.empty
        = exec_loop rd ?vl (t # post) D'" "D' ''res_var_dict'' = None"
      by auto
    have "exec_assign rd t (sync_locals ?vl t D') = Inl (KeyError t)"
      using idt unk D'(2) by (simp add: exec_assign_unknown sync_locals_res)
    then have "exec_loop rd ?vl ?vl Map.empty = Inl (KeyError t)"
      using D'(1) pos by simp
    then show "compute_obj rt rd = Inl (KeyError t)"
      by (simp add: compute_obj_def)
  qed
qed

text \<open>The objective \<open>cl/foo\<close> with \<open>cl\<close> known and \<open>foo\<close> unknown raises \<open>KeyError foo\<close>.\<close>

theorem compute_obj_unknown_token_witness:
  "splt ''cl/foo'' = [''cl''] @ ''foo'' # []
   \<and> map_of [(''cl'', ''cl'', [1 / 2 :: real], None :: real option, None :: real option, '''')] ''foo'' = None
   \<and> compute_obj \<lparr>type = ''Optim'', modules = [], driver = ''COBYLA'', objective = ''cl/foo'', date = ''''\<rparr>
        [(''cl'', ''cl'', [1 / 2], None, None, '''')]
      = Inl (KeyError ''foo'')"
proof -
  let ?Rt = "\<lparr>type = ''Optim'', modules = [], driver = ''COBYLA'', objective = ''cl/foo'', date = ''''\<rparr>"
  let ?d = "[(''cl'', ''cl'', [1 / 2 :: real], None :: real option, None :: real option, '''')]"
  have ids: "list_all is_identifier (splt (objective ?Rt))"
    by (simp add: compute_obj_eval_defs)
  have pos: "splt (objective ?Rt) = [''cl''] @ ''foo'' # []"
    by (simp add: is_op_def)
  have unk: "map_of ?d ''foo'' = None"
    by simp
  have good: "\<forall>u\<in>set [''cl'']. u \<noteq> ''res_var_dict'' \<and> has_history ?d u"
    by (simp add: has_history_def)
  from compute_obj_unknown_token[OF ids pos unk] good
  have "compute_obj ?Rt ?d = Inl (KeyError ''foo'')" by blast
  with pos unk show ?thesis by simp
qed

text \<open>
  C5 (as stated): an unknown token makes \<open>compute_obj\<close> fail with the unknown-variable
  error for every expression and every dictionary state.  In \<open>cl/foo\<close> the token
  \<open>foo\<close> is unknown, but when the history of \<open>cl\<close> is empty the loop stops at
  \<open>cl\<close> with IndexError, before \<open>foo\<close> is looked up.
\<close>

theorem compute_obj_empty_history_first:
  "splt ''cl/foo'' = [''cl'', ''foo'']
   \<and> map_of [(''cl'', ''cl'', [] :: real list, None :: real option, None :: real option, '''')] ''foo'' = None
   \<and> compute_obj \<lparr>type = ''Optim'', modules = [], driver = ''COBYLA'', objective = ''cl/foo'', date = ''''\<rparr>
        [(''cl'', ''cl'', [], None, None, '''')]
      = Inl IndexError"
  by (simp add: compute_obj_eval_defs)

section \<open>Properties of the components and of the problem\<close>

lemma item_simps [simp]:
  "item_key (key, r) = key"
  "item_name (key, name, r') = name"
  "item_listval (key, name, listval, r'') = listval"
  by (simp_all add: item_key_def item_name_def item_listval_def)

lemma setup_inputs_ok:
  "\<forall>it\<in>set dd. item_listval it \<noteq> [] \<Longrightarrow>
   setup_inputs dd = Inr (map (\<lambda>it. om_add_input (item_key it) (hd (item_listval it))) dd)"
  by (induction dd rule: setup_inputs.induct) auto

lemma constraint_setup_ok:
  "\<forall>it\<in>set rd. item_listval it \<noteq> [] \<Longrightarrow>
   constraint_setup rd = Inr (map (\<lambda>it. om_add_output (item_name it) (Some (hd (item_listval it)))) rd)"
  by (induction rd rule: constraint_setup.induct) auto

lemma constraint_compute_fold:
  "\<forall>it\<in>set rd. item_listval it \<noteq> [] \<Longrightarrow>
   constraint_compute rd outs0 =
     Inr (fold (\<lambda>it outs. outs(item_name it \<mapsto> last (item_listval it))) rd outs0)"
  by (induction rd outs0 rule: constraint_compute.induct) auto

lemma fold_outputs_other:
  "n \<notin> item_name ` set rd \<Longrightarrow>
   fold (\<lambda>it outs. outs(item_name it \<mapsto> last (item_listval it))) rd outs0 n = outs0 n"
  by (induction rd arbitrary: outs0) auto

lemma fold_outputs_entry:
  assumes "distinct (map item_name rd)" and "it \<in> set rd"
  shows "fold (\<lambda>it outs. outs(item_name it \<mapsto> last (item_listval it))) rd outs0 (item_name it)
           = Some (last (item_listval it))"
  using assms
proof (induction rd arbitrary: outs0)
  case Nil
  then show ?case by simp
next
  case (Cons a rd)
  show ?case
  proof (cases "it = a")
    case True
    with Cons.prems(1) have notin: "item_name a \<notin> item_name ` set rd" by simp
    let ?f = "\<lambda>it outs. outs(item_name it \<mapsto> last (item_listval it))"
    let ?o1 = "outs0(item_name a \<mapsto> last (item_listval a))"
    have "fold ?f (a # rd) outs0 (item_name it) = fold ?f rd ?o1 (item_name a)"
      using True by simp
    also have "\<dots> = ?o1 (item_name a)"
      using notin by (rule fold_outputs_other)
    also have "\<dots> = Some (last (item_listval it))"
      using True by simp
    finally show ?thesis .
  next
    case False
    with Cons.prems have "it \<in> set rd" "distinct (map item_name rd)" by auto
    from Cons.IH[OF this(2) this(1)] show ?thesis by simp
  qed
qed

text \<open>
  C6: when every history holds a value, the setup of the objective component declares
  one input per design variable, named by its key and initialised with the first element
  of its history, then the single output named by the objective; the setup of the
  constraint component declares one output per result variable; and each compute of the
  constraint component leaves in every such output the last element of the history of
  its variable (the names of the result variables being different from each other), the
  other outputs unchanged.
\<close>

theorem adapters_ports:
  assumes dd: "\<forall>it\<in>set dd. item_listval it \<noteq> []"
    and rd: "\<forall>it\<in>set rd. item_listval it \<noteq> []"
    and names: "distinct (map item_name rd)"
  shows "objective_function_setup rt dd =
           Inr (map (\<lambda>it. om_add_input (item_key it) (hd (item_listval it))) dd
                @ [om_add_output (objective rt) None, om_declare_partials ''*'' ''*'' ''exact''])
         \<and> constraint_setup rd =
           Inr (map (\<lambda>it. om_add_output (item_name it) (Some (hd (item_listval it)))) rd)
         \<and> (\<exists>outs. constraint_compute rd outs0 = Inr outs
              \<and> (\<forall>it\<in>set rd. outs (item_name it) = Some (last (item_listval it)))
              \<and> (\<forall>n. n \<notin> item_name ` set rd \<longrightarrow> outs n = outs0 n))"
proof -
  have "objective_function_setup rt dd =
           Inr (map (\<lambda>it. om_add_input (item_key it) (hd (item_listval it))) dd
                @ [om_add_output (objective rt) None, om_declare_partials ''*'' ''*'' ''exact''])"
    using dd by (simp add: objective_function_setup_def setup_inputs_ok)
  moreover note constraint_setup_ok[OF rd]
  moreover have "\<exists>outs. constraint_compute rd outs0 = Inr outs
              \<and> (\<forall>it\<in>set rd. outs (item_name it) = Some (last (item_listval it)))
              \<and> (\<forall>n. n \<notin> item_name ` set rd \<longrightarrow> outs n = outs0 n)"
    using constraint_compute_fold[OF rd, of outs0] fold_outputs_entry[OF names]
      fold_outputs_other[of _ rd outs0]
    by simp
  ultimately show ?thesis by blast
qed

text \<open>One design variable with history \<open>[30, 32]\<close>, one result variable with \<open>[0.05, 0.02]\<close>.\<close>

theorem adapters_ports_witness:
  "objective_function_setup
       \<lparr>type = ''Optim'', modules = [], driver = ''COBYLA'', objective = ''cl/cd'', date = ''''\<rparr>
       [(''x1'', ''span'', [30, 32], Some 20, Some 40, ''set'', ''get'')]
     = Inr [om_add_input ''x1'' 30, om_add_output ''cl/cd'' None, om_declare_partials ''*'' ''*'' ''exact'']
   \<and> constraint_setup [(''y1'', ''cms'', [1 / 20, 1 / 50], None, None, ''get'')]
     = Inr [om_add_output ''cms'' (Some (1 / 20))]
   \<and> (\<exists>outs. constraint_compute [(''y1'', ''cms'', [1 / 20, 1 / 50], None, None, ''get'')] Map.empty = Inr outs
         \<and> outs ''cms'' = Some (1 / 50))"
proof -
  let ?rt = "\<lparr>type = ''Optim'', modules = [], driver = ''COBYLA'', objective = ''cl/cd'', date = ''''\<rparr>"
  let ?dd = "[(''x1'', ''span'', [30, 32 :: real], Some (20 :: real), Some (40 :: real), ''set'', ''get'')]"
  let ?rd = "[(''y1'', ''cms'', [1 / 20, 1 / 50 :: real], None :: real option, None :: real option, ''get'')]"
  have h1: "\<forall>it\<in>set ?dd. item_listval it \<noteq> []" by simp
  have h2: "\<forall>it\<in>set ?rd. item_listval it \<noteq> []" by simp
  have h3: "distinct (map item_name ?rd)" by simp
  from adapters_ports[OF h1 h2 h3, of ?rt Map.empty] show ?thesis by simp
qed

lemma floor_log10_nonneg:
  fixes m :: nat
  assumes "0 < m"
  shows "0 \<le> \<lfloor>log 10 (real m)\<rfloor>"
  using assms by simp

lemma floor_log10_floor:
  fixes a :: real
  assumes "1 \<le> a"
  shows "\<lfloor>log 10 a\<rfloor> = \<lfloor>log 10 (real (nat \<lfloor>a\<rfloor>))\<rfloor>"
proof -
  define n where "n = nat \<lfloor>a\<rfloor>"
  define k where "k = nat \<lfloor>log 10 (real n)\<rfloor>"
  have n1: "1 \<le> n" using assms by (simp add: n_def le_nat_iff)
  have na: "real n \<le> a" using assms by (simp add: n_def)
  have an: "a < real (n + 1)" using assms by (simp add: n_def) linarith
  have "0 \<le> \<lfloor>log 10 (real n)\<rfloor>" using n1 by (intro floor_log10_nonneg) simp
  then have kk: "\<lfloor>log 10 (real n)\<rfloor> = int k" by (simp add: k_def)
  from kk have b: "10 ^ k \<le> n \<and> n < 10 ^ (k + 1)"
    using floor_log_nat_eq_powr_iff[of 10 n k] n1 by simp
  then have "n + 1 \<le> 10 ^ (k + 1)" by simp
  then have "real (n + 1) \<le> real ((10::nat) ^ (k + 1))" by (rule of_nat_mono)
  also have "\<dots> = (10::real) ^ (k + 1)" by simp
  finally have up: "a < 10 ^ (k + 1)" using an by linarith
  have "(10::real) ^ k = real ((10::nat) ^ k)" by simp
  also have "\<dots> \<le> real n" using b by (intro of_nat_mono) simp
  also have "\<dots> \<le> a" by (rule na)
  finally have lo: "10 ^ k \<le> a" .
  have "0 < a" using assms by linarith
  then have "\<lfloor>log 10 a\<rfloor> = int k"
    using lo up by (subst floor_log_eq_powr_iff) (simp_all add: powr_realpow powr_add)
  with kk show ?thesis by (simp add: n_def)
qed

text \<open>
  The reference value is the number of decimal digits of the integer part of
  \<open>\<bar>x\<bar> + 1\<close>, which makes it computable.
\<close>

lemma norm_ref_code [code]: "norm_ref x = int (floorlog 10 (nat \<lfloor>\<bar>x\<bar> + 1\<rfloor>))"
proof -
  define m where "m = nat \<lfloor>\<bar>x\<bar> + 1\<rfloor>"
  have a: "1 \<le> \<bar>x\<bar> + 1" by simp
  then have "1 \<le> \<lfloor>\<bar>x\<bar> + 1\<rfloor>" by (simp only: le_floor_iff of_int_1)
  then have m: "0 < m" by (simp add: m_def)
  have nn: "0 \<le> \<lfloor>log 10 (real m)\<rfloor>" using m by (rule floor_log10_nonneg)
  have "\<lfloor>log 10 (\<bar>x\<bar> + 1)\<rfloor> = \<lfloor>log 10 (real m)\<rfloor>"
    unfolding m_def by (rule floor_log10_floor[OF a])
  then have "norm_ref x = \<lfloor>log 10 (real m)\<rfloor> + 1"
    by (simp add: norm_ref_def)
  also have "\<dots> = int (floorlog 10 m)"
    using m nn by (simp add: floorlog_def)
  finally show ?thesis by (simp only: m_def)
qed

lemma design_var_loop_keeps:
  "design_var_loop dd p = Inr p' \<Longrightarrow>
   prob_driver p' = prob_driver p \<and> constraints p' = constraints p \<and>
   subsystems p' = subsystems p \<and> objectives p' = objectives p \<and> recorders p' = recorders p"
  by (induction dd p rule: design_var_loop.induct) (auto simp: Let_def split: if_splits)

lemma design_var_loop_ok:
  "\<forall>it\<in>set dd. item_listval it \<noteq> [] \<Longrightarrow> \<exists>p'. design_var_loop dd p = Inr p'"
  by (induction dd p rule: design_var_loop.induct) (auto simp: Let_def)

lemma constraint_loop_keeps:
  "constraint_loop rd p = Inr p' \<Longrightarrow>
   prob_driver p' = prob_driver p \<and> subsystems p' = subsystems p \<and>
   objectives p' = objectives p \<and> recorders p' = recorders p"
  by (induction rd p rule: constraint_loop.induct)
     (auto simp: add_constraint_def split: if_splits sum.splits)

lemma constraint_loop_constraints:
  "constraint_loop rd p = Inr p' \<Longrightarrow>
   constraints p' =
     constraints p @ replicate (length (filter (\<lambda>it. item_name it = ''cms'') rd))
                       (''const.cms'', - (1 / 10), 1 / 10)"
  by (induction rd p rule: constraint_loop.induct)
     (auto simp: add_constraint_def replicate_app_Cons_same split: if_splits sum.splits)

lemma constraint_loop_no_cms:
  "filter (\<lambda>it. item_name it = ''cms'') rd = [] \<Longrightarrow> constraint_loop rd p = Inr p"
  by (induction rd p rule: constraint_loop.induct) (auto split: if_splits)

lemma constraint_loop_ok:
  assumes "''const.cms'' \<notin> fst ` set (constraints p)" and "''const.cms'' \<notin> set (objectives p)"
    and "length (filter (\<lambda>it. item_name it = ''cms'') rd) \<le> 1"
  shows "\<exists>p'. constraint_loop rd p = Inr p'"
  using assms
proof (induction rd p rule: constraint_loop.induct)
  case (1 prob)
  then show ?case by simp
next
  case (2 key name listval minval maxval getcommand rest prob)
  show ?case
  proof (cases "name = ''cms''")
    case True
    with "2.prems"(3) have none: "filter (\<lambda>it. item_name it = ''cms'') rest = []"
      by simp
    have "add_constraint (''const.'' @ name) (- (1 / 10)) (1 / 10) prob =
            Inr (prob\<lparr>constraints := constraints prob @ [(''const.cms'', - (1 / 10), 1 / 10)]\<rparr>)"
      using True "2.prems"(1,2) by (simp add: add_constraint_def)
    with True none show ?thesis
      by (simp add: constraint_loop_no_cms)
  next
    case False
    with "2.prems" "2.IH"(2) show ?thesis by simp
  qed
qed

text \<open>The parts of \<open>build_problem\<close>, when it gives a problem.\<close>

lemma build_problem_parts:
  assumes "build_problem rt dd rd = Inr p"
  obtains d p1 p2 where "choose_driver rt = Some d"
    and "design_var_loop dd
           (om_Problem\<lparr>subsystems :=
              [(''indeps'', IndepVarComp), (''objective'', objective_function),
               (''const'', constraint)], prob_driver := d\<rparr>) = Inr p1"
    and "constraint_loop rd p1 = Inr p2"
    and "p = p2\<lparr>objectives := objectives p2 @ [''objective.'' @ objective rt],
                 recorders := recorders p2 @ [''../Optimisation/Driver_recorder.sql'']\<rparr>"
  using assms
  by (auto simp: build_problem_def Let_def split: sum.splits option.splits)

lemma build_problem_driver:
  assumes "build_problem rt dd rd = Inr p"
  shows "choose_driver rt = Some (prob_driver p)"
proof -
  from assms obtain d p1 p2 where d: "choose_driver rt = Some d"
    and p1: "design_var_loop dd
           (om_Problem\<lparr>subsystems :=
              [(''indeps'', IndepVarComp), (''objective'', objective_function),
               (''const'', constraint)], prob_driver := d\<rparr>) = Inr p1"
    and p2: "constraint_loop rd p1 = Inr p2"
    and p: "p = p2\<lparr>objectives := objectives p2 @ [''objective.'' @ objective rt],
                 recorders := recorders p2 @ [''../Optimisation/Driver_recorder.sql'']\<rparr>"
    by (rule build_problem_parts)
  from design_var_loop_keeps[OF p1] constraint_loop_keeps[OF p2] p d show ?thesis
    by simp
qed

lemma build_problem_ok:
  assumes drv: "choose_driver rt = Some d"
    and dd: "\<forall>it\<in>set dd. item_listval it \<noteq> []"
    and rd: "length (filter (\<lambda>it. item_name it = ''cms'') rd) \<le> 1"
  shows "\<exists>p. build_problem rt dd rd = Inr p"
proof -
  let ?p0 = "om_Problem\<lparr>subsystems :=
              [(''indeps'', IndepVarComp), (''objective'', objective_function),
               (''const'', constraint)], prob_driver := d\<rparr>"
  from design_var_loop_ok[OF dd] obtain p1 where p1: "design_var_loop dd ?p0 = Inr p1"
    by blast
  from design_var_loop_keeps[OF p1] have "constraints p1 = []" "objectives p1 = []"
    by (simp_all add: om_Problem_def)
  then have "''const.cms'' \<notin> fst ` set (constraints p1)" "''const.cms'' \<notin> set (objectives p1)"
    by simp_all
  from constraint_loop_ok[OF this rd] obtain p2 where "constraint_loop rd p1 = Inr p2"
    by blast
  with drv p1 show ?thesis
    by (simp add: build_problem_def Let_def)
qed

text \<open>Two result variables named \<open>cms\<close>: the second registration is refused.\<close>

lemma build_problem_second_cms:
  "build_problem \<lparr>type = ''Optim'', modules = [], driver = ''COBYLA'', objective = ''cl/cd'', date = ''''\<rparr> []
     [(''y1'', ''cms'', [0], None, None, ''get1''), (''y2'', ''cms'', [0], None, None, ''get2'')]
   = Inl (RuntimeError ''const.cms'')"
  by (simp add: build_problem_def choose_driver_def om_Problem_def add_constraint_def Let_def)

text \<open>
  C9: in the problem that \<open>run_routine\<close> builds, the registered constraints are one
  \<open>const.cms\<close> with lower bound \<open>-0.1\<close> and upper bound \<open>0.1\<close> for each result
  variable whose name is \<open>cms\<close>, and nothing else: the bounds kept in the dictionary
  are not used, and no other result variable is registered.
\<close>

theorem run_routine_constraints:
  assumes "build_problem rt dd rd = Inr p"
  shows "constraints p =
           replicate (length (filter (\<lambda>it. item_name it = ''cms'') rd))
             (''const.cms'', - (1 / 10), 1 / 10)"
proof -
  from assms obtain d p1 p2 where
    p1: "design_var_loop dd
           (om_Problem\<lparr>subsystems :=
              [(''indeps'', IndepVarComp), (''objective'', objective_function),
               (''const'', constraint)], prob_driver := d\<rparr>) = Inr p1"
    and p2: "constraint_loop rd p1 = Inr p2"
    and p: "p = p2\<lparr>objectives := objectives p2 @ [''objective.'' @ objective rt],
                 recorders := recorders p2 @ [''../Optimisation/Driver_recorder.sql'']\<rparr>"
    by (rule build_problem_parts)
  from design_var_loop_keeps[OF p1] have "constraints p1 = []"
    by (simp add: om_Problem_def)
  with constraint_loop_constraints[OF p2] p show ?thesis by simp
qed

text \<open>Two result variables with bounds of their own; only \<open>cms\<close> is registered.\<close>

theorem run_routine_constraints_witness:
  "\<exists>p. build_problem
         \<lparr>type = ''Optim'', modules = [], driver = ''COBYLA'', objective = ''cl/cd'', date = ''''\<rparr> []
         [(''y1'', ''cms'', [0], Some (- 1), Some 1, ''get''), (''y2'', ''cl'', [1 / 2], Some 0, Some 2, ''get'')]
       = Inr p
     \<and> constraints p = [(''const.cms'', - (1 / 10), 1 / 10)]"
proof -
  let ?rt = "\<lparr>type = ''Optim'', modules = [], driver = ''COBYLA'', objective = ''cl/cd'', date = ''''\<rparr>"
  let ?rd = "[(''y1'', ''cms'', [0 :: real], Some (- 1 :: real), Some (1 :: real), ''get''),
              (''y2'', ''cl'', [1 / 2], Some 0, Some 2, ''get'')]"
  obtain p where b: "build_problem ?rt [] ?rd = Inr p"
    by (simp add: build_problem_def choose_driver_def om_Problem_def add_constraint_def Let_def)
  from run_routine_constraints[OF b] have "constraints p = [(''const.cms'', - (1 / 10), 1 / 10)]"
    by simp
  with b show ?thesis by blast
qed

text \<open>
  C8: a routine has one of the two kinds, \<open>DesignOfExperiments\<close> and \<open>Optimisation\<close>
  (the values \<open>DoE\<close> and \<open>Optim\<close> of \<open>Rt.type\<close>).  For the first \<open>run_routine\<close>
  selects the design-of-experiments driver, for the second the SciPy optimizer driver
  with the algorithm identifier configured in \<open>Rt.driver\<close>; the driver of every problem
  that \<open>run_routine\<close> builds is the one so selected, and with a type of neither kind no
  driver is selected and no problem is built.  The selection comes first and does not
  depend on the dictionaries; with a routine of one of the two kinds the problem is built
  whenever every design variable has a first value and at most one result variable is
  named \<open>cms\<close>.
\<close>

theorem run_routine_driver:
  "(spec_kind (type rt) = Some DesignOfExperiments \<longrightarrow>
      choose_driver rt = Some (DOEDriver_UniformGenerator 10))
   \<and> (spec_kind (type rt) = Some Optimisation \<longrightarrow>
      choose_driver rt = Some (ScipyOptimizeDriver (driver rt) 10))
   \<and> (spec_kind (type rt) = None \<longrightarrow>
      choose_driver rt = None \<and> (\<exists>e. build_problem rt dd rd = Inl e))
   \<and> (\<forall>p. build_problem rt dd rd = Inr p \<longrightarrow>
      spec_kind (type rt) \<noteq> None \<and> choose_driver rt = Some (prob_driver p))
   \<and> (spec_kind (type rt) \<noteq> None \<and> (\<forall>it\<in>set dd. item_listval it \<noteq> []) \<and>
      length (filter (\<lambda>it. item_name it = ''cms'') rd) \<le> 1 \<longrightarrow>
      (\<exists>p. build_problem rt dd rd = Inr p \<and> choose_driver rt = Some (prob_driver p)))"
proof (intro conjI impI allI)
  assume "spec_kind (type rt) = Some DesignOfExperiments"
  then show "choose_driver rt = Some (DOEDriver_UniformGenerator 10)"
    by (simp add: spec_kind_def choose_driver_def split: if_splits)
next
  assume "spec_kind (type rt) = Some Optimisation"
  then show "choose_driver rt = Some (ScipyOptimizeDriver (driver rt) 10)"
    by (simp add: spec_kind_def choose_driver_def split: if_splits)
next
  assume "spec_kind (type rt) = None"
  then show "choose_driver rt = None"
    by (simp add: spec_kind_def choose_driver_def split: if_splits)
next
  assume none: "spec_kind (type rt) = None"
  then have "choose_driver rt = None"
    by (simp add: spec_kind_def choose_driver_def split: if_splits)
  with build_problem_driver[of rt dd rd] show "\<exists>e. build_problem rt dd rd = Inl e"
    by (cases "build_problem rt dd rd") auto
next
  fix p assume b: "build_problem rt dd rd = Inr p"
  from build_problem_driver[OF b] show "choose_driver rt = Some (prob_driver p)" .
  then show "spec_kind (type rt) \<noteq> None"
    by (auto simp: spec_kind_def choose_driver_def split: if_splits)
next
  assume a: "spec_kind (type rt) \<noteq> None \<and> (\<forall>it\<in>set dd. item_listval it \<noteq> []) \<and>
      length (filter (\<lambda>it. item_name it = ''cms'') rd) \<le> 1"
  then obtain d where "choose_driver rt = Some d"
    by (auto simp: spec_kind_def choose_driver_def split: if_splits)
  from build_problem_ok[OF this] a obtain p where b: "build_problem rt dd rd = Inr p"
    by blast
  with build_problem_driver[OF b]
  show "\<exists>p. build_problem rt dd rd = Inr p \<and> choose_driver rt = Some (prob_driver p)"
    by blast
qed

text \<open>
  The two kinds and a type of neither kind, with one design variable and the result
  variable \<open>cms\<close>.
\<close>

theorem run_routine_driver_witness:
  "spec_kind ''DoE'' = Some DesignOfExperiments
   \<and> (\<exists>p. build_problem \<lparr>type = ''DoE'', modules = [], driver = ''COBYLA'', objective = ''cl/cd'', date = ''''\<rparr>
           [(''x1'', ''span'', [30], Some 20, Some 40, ''set'', ''get'')]
           [(''y1'', ''cms'', [0], None, None, ''get'')] = Inr p
        \<and> prob_driver p = DOEDriver_UniformGenerator 10)
   \<and> spec_kind ''Optim'' = Some Optimisation
   \<and> (\<exists>p. build_problem \<lparr>type = ''Optim'', modules = [], driver = ''COBYLA'', objective = ''cl/cd'', date = ''''\<rparr>
           [(''x1'', ''span'', [30], Some 20, Some 40, ''set'', ''get'')]
           [(''y1'', ''cms'', [0], None, None, ''get'')] = Inr p
        \<and> prob_driver p = ScipyOptimizeDriver ''COBYLA'' 10)
   \<and> spec_kind ''FullFactorial'' = None
   \<and> (\<exists>e. build_problem \<lparr>type = ''FullFactorial'', modules = [], driver = ''COBYLA'', objective = ''cl/cd'', date = ''''\<rparr>
           [(''x1'', ''span'', [30], Some 20, Some 40, ''set'', ''get'')]
           [(''y1'', ''cms'', [0], None, None, ''get'')] = Inl e)"
proof -
  let ?dd = "[(''x1'', ''span'', [30 :: real], Some (20 :: real), Some (40 :: real), ''set'', ''get'')]"
  let ?rd = "[(''y1'', ''cms'', [0 :: real], None :: real option, None :: real option, ''get'')]"
  let ?doe = "\<lparr>type = ''DoE'', modules = [], driver = ''COBYLA'', objective = ''cl/cd'', date = ''''\<rparr>"
  let ?opt = "\<lparr>type = ''Optim'', modules = [], driver = ''COBYLA'', objective = ''cl/cd'', date = ''''\<rparr>"
  let ?oth = "\<lparr>type = ''FullFactorial'', modules = [], driver = ''COBYLA'', objective = ''cl/cd'', date = ''''\<rparr>"
  have k: "spec_kind ''DoE'' = Some DesignOfExperiments" "spec_kind ''Optim'' = Some Optimisation"
    "spec_kind ''FullFactorial'' = None"
    by (simp_all add: spec_kind_def)
  have h: "\<forall>it\<in>set ?dd. item_listval it \<noteq> []" "length (filter (\<lambda>it. item_name it = ''cms'') ?rd) \<le> 1"
    by simp_all
  note doe = run_routine_driver[of ?doe ?dd ?rd]
  note opt = run_routine_driver[of ?opt ?dd ?rd]
  note oth = run_routine_driver[of ?oth ?dd ?rd]
  from doe k have d1: "choose_driver ?doe = Some (DOEDriver_UniformGenerator 10)"
    by simp
  from doe k h have "\<exists>p. build_problem ?doe ?dd ?rd = Inr p \<and> choose_driver ?doe = Some (prob_driver p)"
    by (simp (no_asm_use)) blast
  with d1 have 1: "\<exists>p. build_problem ?doe ?dd ?rd = Inr p \<and> prob_driver p = DOEDriver_UniformGenerator 10"
    by auto
  from opt k have d2: "choose_driver ?opt = Some (ScipyOptimizeDriver ''COBYLA'' 10)"
    by simp
  from opt k h have "\<exists>p. build_problem ?opt ?dd ?rd = Inr p \<and> choose_driver ?opt = Some (prob_driver p)"
    by (simp (no_asm_use)) blast
  with d2 have 2: "\<exists>p. build_problem ?opt ?dd ?rd = Inr p \<and> prob_driver p = ScipyOptimizeDriver ''COBYLA'' 10"
    by auto
  from oth k have 3: "\<exists>e. build_problem ?oth ?dd ?rd = Inl e"
    by simp
  from k 1 2 3 show ?thesis by simp
qed

section \<open>Properties of the iteration\<close>

lemma bindE_assoc: "bindE (bindE m f) g = bindE m (\<lambda>x. bindE (f x) g)"
  by (auto simp: bindE_def fun_eq_iff split: prod.splits sum.splits)

lemma returnE_bindE: "bindE (returnE x) f = f x"
  by (simp add: bindE_def returnE_def)

lemma one_iteration_split:
  "one_iteration X =
     bindE (before_subworkflow X) (\<lambda>rt.
     bindE (callW (run_subworkflow X (modules rt))) (\<lambda>u. after_subworkflow X rt))"
  unfolding one_iteration_def before_subworkflow_def after_subworkflow_def
  by (simp only: bindE_assoc returnE_bindE)

lemma io_returnE: "(\<And>s. R s s) \<Longrightarrow> io_rel R (returnE x)"
  by (simp add: io_rel_def returnE_def)

lemma io_liftE: "(\<And>s. R s s) \<Longrightarrow> io_rel R (liftE r)"
  by (simp add: io_rel_def liftE_def)

lemma io_gets: "(\<And>s. R s s) \<Longrightarrow> io_rel R (gets f)"
  by (simp add: io_rel_def gets_def)

lemma io_modify: "(\<And>s. R s (g s)) \<Longrightarrow> io_rel R (modify g)"
  by (simp add: io_rel_def modify_def)

lemma io_callW: "(\<And>s w. R s (s\<lparr>world := w\<rparr>)) \<Longrightarrow> io_rel R (callW f)"
  by (simp add: io_rel_def callW_def split: prod.splits)

lemma io_bindE:
  assumes "io_rel R m" "\<And>x. io_rel R (f x)" "\<And>a b c. R a b \<Longrightarrow> R b c \<Longrightarrow> R a c"
  shows "io_rel R (bindE m f)"
  unfolding io_rel_def
proof
  fix s
  obtain r s1 where ms: "m s = (r, s1)" by (cases "m s")
  have 1: "R s s1" using assms(1) ms by (auto simp: io_rel_def dest: spec[of _ s])
  show "R s (snd (bindE m f s))"
  proof (cases r)
    case (Inl e)
    with ms 1 show ?thesis by (simp add: bindE_def)
  next
    case (Inr x)
    have "R s1 (snd (f x s1))" using assms(2)[of x] by (simp add: io_rel_def)
    with 1 have "R s (snd (f x s1))" by (rule assms(3))
    with ms Inr show ?thesis by (simp add: bindE_def)
  qed
qed

lemma io_if: "io_rel R m \<Longrightarrow> io_rel R m' \<Longrightarrow> io_rel R (if b then m else m')"
  by simp

text \<open>A component of the state that a run leaves as it was.\<close>

lemma keeps_res_before: "io_rel (\<lambda>s s'. res_var_dict s' = res_var_dict s) (before_subworkflow X)"
  unfolding before_subworkflow_def
  by (intro io_bindE io_returnE io_liftE io_gets io_modify io_callW io_if) simp_all

lemma keeps_design_before: "io_rel (\<lambda>s s'. design_var_dict s' = design_var_dict s) (before_subworkflow X)"
  unfolding before_subworkflow_def
  by (intro io_bindE io_returnE io_liftE io_gets io_modify io_callW io_if) simp_all

lemma keeps_Rt_before: "io_rel (\<lambda>s s'. Rt s' = Rt s) (before_subworkflow X)"
  unfolding before_subworkflow_def
  by (intro io_bindE io_returnE io_liftE io_gets io_modify io_callW io_if) simp_all

text \<open>
  C3: when the statements of \<open>one_iteration\<close> before the module chain have run and the
  chain (\<open>run_subworkflow\<close> on the configured modules) fails with an exception,
  \<open>one_iteration\<close> ends with that same exception, in the state the chain left, without
  running anything else, and the result dictionary is the one the iteration started with:
  \<open>update_res_var_dict\<close> comes after the chain and is not reached.
\<close>

theorem one_iteration_chain_failure:
  assumes pre: "before_subworkflow X s = (Inr rt, s1)"
    and chain: "run_subworkflow X (modules rt) (world s1) = (Inl e, w)"
  shows "one_iteration X s = (Inl e, s1\<lparr>world := w\<rparr>)
         \<and> res_var_dict (s1\<lparr>world := w\<rparr>) = res_var_dict s"
proof
  show "one_iteration X s = (Inl e, s1\<lparr>world := w\<rparr>)"
    using pre chain by (simp add: one_iteration_split bindE_def callW_def)
  have "res_var_dict s1 = res_var_dict s"
    using keeps_res_before[of X] pre by (auto simp: io_rel_def dest: spec[of _ s])
  then show "res_var_dict (s1\<lparr>world := w\<rparr>) = res_var_dict s" by simp
qed

lemmas run_defs = one_iteration_def before_subworkflow_def after_subworkflow_def
  bindE_def returnE_def liftE_def gets_def modify_def callW_def first_item_def last_item_def
  update_res_var_dict_def X_ok_def X_fail_def s_example_def

text \<open>A chain of two modules whose run fails: nothing is appended to \<open>cl\<close> and \<open>cd\<close>.\<close>

theorem one_iteration_chain_failure_witness:
  "before_subworkflow X_fail s_example = (Inr (Rt s_example), s_example\<lparr>counter := 1\<rparr>)
   \<and> run_subworkflow X_fail (modules (Rt s_example)) () = (Inl (External ''SU2Run''), ())
   \<and> one_iteration X_fail s_example = (Inl (External ''SU2Run''), s_example\<lparr>counter := 1\<rparr>)
   \<and> res_var_dict (s_example\<lparr>counter := 1\<rparr>) = res_var_dict s_example"
proof -
  have pre: "before_subworkflow X_fail s_example = (Inr (Rt s_example), s_example\<lparr>counter := 1\<rparr>)"
    by (simp add: run_defs)
  have chain: "run_subworkflow X_fail (modules (Rt s_example)) (world (s_example\<lparr>counter := 1\<rparr>))
      = (Inl (External ''SU2Run''), ())"
    by (simp add: X_fail_def)
  from one_iteration_chain_failure[OF pre chain] pre chain show ?thesis
    by simp
qed

subsection \<open>Histories only grow\<close>

lemma extends_refl: "extends d d"
  by (simp add: extends_def list_all2_same)

lemma extends_trans:
  assumes "extends a b" "extends b c"
  shows "extends a c"
  using assms unfolding extends_def
  by (rule list_all2_trans[rotated]) (auto intro: prefix_order.trans)

lemma grown_by_0: "grown_by 0 d d"
  by (simp add: grown_by_def list_all2_same)

lemma grown_by_add:
  assumes "grown_by m a b" "grown_by n b c"
  shows "grown_by (m + n) a c"
  using assms unfolding grown_by_def
  by (rule list_all2_trans[rotated]) (auto intro: prefix_order.trans)

lemma grown_by_extends: "grown_by n a b \<Longrightarrow> extends a b"
  unfolding grown_by_def extends_def
  by (erule list_all2_mono) simp

lemma grown_by_names: "grown_by n a b \<Longrightarrow> map item_name b = map item_name a"
  unfolding grown_by_def
  by (induction a b rule: list_all2_induct) auto

lemma grown_by_length:
  "grown_by n a b \<Longrightarrow> \<forall>it\<in>set a. length (item_listval it) = k \<Longrightarrow>
   \<forall>it\<in>set b. length (item_listval it) = k + n"
  unfolding grown_by_def
  by (induction a b rule: list_all2_induct) auto

lemma grown_by_nonempty: "grown_by (Suc n) a b \<Longrightarrow> \<forall>it\<in>set b. item_listval it \<noteq> []"
  unfolding grown_by_def
  by (induction a b rule: list_all2_induct) auto

lemma append_inputs_grown: "grown_by 1 dd (append_inputs x dd)"
  by (induction x dd rule: append_inputs.induct) (auto simp: grown_by_def)

lemma update_entries_extends: "extends rd (snd (update_entries f t rd))"
  by (induction f t rd rule: update_entries.induct)
     (auto simp: extends_def list_all2_same split: sum.splits prod.splits)

lemma update_entries_grown:
  "update_entries f t rd = (Inr u, rd') \<Longrightarrow> grown_by 1 rd rd'"
  by (induction f t rd arbitrary: rd' rule: update_entries.induct)
     (auto simp: grown_by_def split: sum.splits prod.splits)

lemma same_dicts_refl: "same_dicts s s"
  by (simp add: same_dicts_def)

lemma same_dicts_trans: "same_dicts a b \<Longrightarrow> same_dicts b c \<Longrightarrow> same_dicts a c"
  by (simp add: same_dicts_def)

lemma dicts_extend_refl: "dicts_extend s s"
  by (simp add: dicts_extend_def extends_refl)

lemma dicts_extend_trans: "dicts_extend a b \<Longrightarrow> dicts_extend b c \<Longrightarrow> dicts_extend a c"
  by (auto simp: dicts_extend_def intro: extends_trans)

lemma same_dicts_extend: "same_dicts a b \<Longrightarrow> dicts_extend a b"
  by (simp add: same_dicts_def dicts_extend_def extends_refl)

lemma dicts_grown_extend: "dicts_grown m n a b \<Longrightarrow> dicts_extend a b"
  by (auto simp: dicts_grown_def dicts_extend_def intro: grown_by_extends)

lemma dicts_grown_add:
  "dicts_grown m n a b \<Longrightarrow> dicts_grown m' n' b c \<Longrightarrow> dicts_grown (m + m') (n + n') a c"
  by (auto simp: dicts_grown_def intro: grown_by_add)

lemma same_dicts_grown: "same_dicts a b \<Longrightarrow> dicts_grown 0 0 a b"
  by (simp add: same_dicts_def dicts_grown_def grown_by_0)

lemma ok_of_io: "io_rel R m \<Longrightarrow> ok_rel R m"
  unfolding io_rel_def ok_rel_def by (metis snd_conv)

lemma ok_bindE:
  assumes "ok_rel R1 m" "\<And>x. ok_rel R2 (f x)" "\<And>a b c. R1 a b \<Longrightarrow> R2 b c \<Longrightarrow> R a c"
  shows "ok_rel R (bindE m f)"
  unfolding ok_rel_def
proof (intro allI impI)
  fix s v s'
  assume run: "bindE m f s = (Inr v, s')"
  obtain r s1 where ms: "m s = (r, s1)" by (cases "m s")
  with run obtain x where x: "r = Inr x" "f x s1 = (Inr v, s')"
    by (cases r) (auto simp: bindE_def)
  have "R1 s s1" using assms(1) ms x(1) by (auto simp: ok_rel_def)
  moreover have "R2 s1 s'" using assms(2)[of x] x(2) by (auto simp: ok_rel_def)
  ultimately show "R s s'" by (rule assms(3))
qed

lemma io_mono: "io_rel R m \<Longrightarrow> (\<And>a b. R a b \<Longrightarrow> R' a b) \<Longrightarrow> io_rel R' m"
  by (simp add: io_rel_def)

text \<open>The statements that touch neither dictionary.\<close>

lemma same_before: "io_rel same_dicts (before_subworkflow X)"
  unfolding before_subworkflow_def
  by (intro io_bindE io_returnE io_liftE io_gets io_modify io_callW io_if)
     (simp_all add: same_dicts_def)

lemma same_callW: "io_rel same_dicts (callW f)"
  by (rule io_callW) (simp add: same_dicts_def)

lemma update_res_var_dict_extend: "io_rel dicts_extend (update_res_var_dict X tixi)"
  unfolding io_rel_def
proof
  fix s :: "'a state"
  obtain r rd where u: "update_entries (read_result X) tixi (res_var_dict s) = (r, rd)"
    by (cases "update_entries (read_result X) tixi (res_var_dict s)")
  with update_entries_extends[of "res_var_dict s" "read_result X" tixi]
  have "extends (res_var_dict s) rd" by simp
  with u show "dicts_extend s (snd (update_res_var_dict X tixi s))"
    by (simp add: update_res_var_dict_def dicts_extend_def extends_refl)
qed

lemma update_res_var_dict_grown: "ok_rel (dicts_grown 0 1) (update_res_var_dict X tixi)"
  by (auto simp: ok_rel_def update_res_var_dict_def dicts_grown_def grown_by_0
      split: prod.splits dest: update_entries_grown)

lemma after_extend: "io_rel dicts_extend (after_subworkflow X rt)"
  unfolding after_subworkflow_def
  by (intro io_bindE update_res_var_dict_extend io_returnE io_liftE io_gets io_callW)
     (auto simp: dicts_extend_def extends_refl intro: extends_trans)

lemma one_iteration_extend: "io_rel dicts_extend (one_iteration X)"
  unfolding one_iteration_split
  by (intro io_bindE after_extend io_mono[OF same_before] io_mono[OF same_callW])
     (auto intro: dicts_extend_trans same_dicts_extend)

lemma ok_same_then:
  assumes "io_rel same_dicts m" "\<And>x. ok_rel (dicts_grown a b) (f x)"
  shows "ok_rel (dicts_grown a b) (bindE m f)"
  using ok_of_io[OF assms(1)] assms(2)
  by (rule ok_bindE) (simp add: same_dicts_def dicts_grown_def)

lemma ok_then_same:
  assumes "ok_rel (dicts_grown a b) m" "\<And>x. io_rel same_dicts (f x)"
  shows "ok_rel (dicts_grown a b) (bindE m f)"
  using assms(1) ok_of_io[OF assms(2)]
  by (rule ok_bindE) (simp add: same_dicts_def dicts_grown_def)

lemma same_liftE: "io_rel same_dicts (liftE r)"
  by (rule io_liftE) (rule same_dicts_refl)

lemma same_returnE: "io_rel same_dicts (returnE r)"
  by (rule io_returnE) (rule same_dicts_refl)

lemma same_gets: "io_rel same_dicts (gets r)"
  by (rule io_gets) (rule same_dicts_refl)

lemma after_grown: "ok_rel (dicts_grown 0 1) (after_subworkflow X rt)"
  unfolding after_subworkflow_def
  apply (rule ok_same_then, rule same_liftE)
  apply (rule ok_same_then, rule same_callW)
  apply (rule ok_same_then, rule same_returnE)
  apply (rule ok_same_then, rule same_callW)
  apply (rule ok_then_same, rule update_res_var_dict_grown)
  apply (rule io_bindE, rule same_gets, rule same_liftE)
  apply (erule (1) same_dicts_trans)
  done

lemma one_iteration_grown: "ok_rel (dicts_grown 0 1) (one_iteration X)"
  unfolding one_iteration_split
  apply (rule ok_same_then, rule same_before)
  apply (rule ok_same_then, rule same_callW)
  apply (rule after_grown)
  done

lemma objective_function_compute_eq:
  "objective_function_compute X x s =
     one_iteration X (s\<lparr>design_var_dict := append_inputs x (design_var_dict s)\<rparr>)"
  by (simp add: objective_function_compute_def bindE_def modify_def)

lemma objective_function_compute_grown: "ok_rel (dicts_grown 1 1) (objective_function_compute X x)"
proof -
  have "ok_rel (dicts_grown 1 0) (modify (\<lambda>s. s\<lparr>design_var_dict := append_inputs x (design_var_dict s)\<rparr>))"
    using append_inputs_grown by (simp add: ok_rel_def modify_def dicts_grown_def grown_by_0)
  from this one_iteration_grown show ?thesis
    unfolding objective_function_compute_def
    by (rule ok_bindE) (auto dest: dicts_grown_add)
qed

lemma objective_function_compute_extend: "io_rel dicts_extend (objective_function_compute X x)"
proof -
  have "io_rel dicts_extend (modify (\<lambda>s. s\<lparr>design_var_dict := append_inputs x (design_var_dict s)\<rparr>))"
    by (rule io_modify)
       (simp add: dicts_extend_def extends_refl grown_by_extends[OF append_inputs_grown])
  from this one_iteration_extend show ?thesis
    unfolding objective_function_compute_def
    by (rule io_bindE) (auto intro: dicts_extend_trans)
qed

subsection \<open>Evaluations of the model\<close>

lemma build_problem_subsystems:
  assumes "build_problem rt dd rd = Inr p"
  shows "subsystems p =
           [(''indeps'', IndepVarComp), (''objective'', objective_function), (''const'', constraint)]"
proof -
  from assms obtain d p1 p2 where
    p1: "design_var_loop dd
           (om_Problem\<lparr>subsystems :=
              [(''indeps'', IndepVarComp), (''objective'', objective_function),
               (''const'', constraint)], prob_driver := d\<rparr>) = Inr p1"
    and p2: "constraint_loop rd p1 = Inr p2"
    and p: "p = p2\<lparr>objectives := objectives p2 @ [''objective.'' @ objective rt],
                 recorders := recorders p2 @ [''../Optimisation/Driver_recorder.sql'']\<rparr>"
    by (rule build_problem_parts)
  from design_var_loop_keeps[OF p1] constraint_loop_keeps[OF p2] p show ?thesis
    by simp
qed

lemma run_model_eq:
  assumes "subsystems prob =
      [(''indeps'', IndepVarComp), (''objective'', objective_function), (''const'', constraint)]"
  shows "run_model X prob x s =
    (case objective_function_compute X x s of
       (Inl e, s1) \<Rightarrow> (Inl e, s1)
     | (Inr v, s1) \<Rightarrow>
        (case constraint_compute (res_var_dict s1) Map.empty of
           Inl e \<Rightarrow> (Inl e, s1)
         | Inr outs \<Rightarrow> (Inr \<lparr>objective_output = Some v, constraint_outputs = outs\<rparr>, s1)))"
  using assms
  by (simp add: run_model_def bindE_def returnE_def gets_def liftE_def
      split: prod.splits sum.splits)

text \<open>
  C2: in one evaluation of the model that \<open>run_routine\<close> builds, the compute of the
  constraint component comes after the compute of the objective component.  When the
  objective's compute raises, the evaluation ends with that exception in the state it
  left, and the constraint's compute is not run.  When it returns, every history of both
  dictionaries has grown by exactly one element, and the constraint's compute runs in
  that state: each value it reads, the last element of the history of a result variable,
  is the one appended during this evaluation, so no result history is ahead of the design
  histories.  (The names of the result variables are taken to be different from each
  other, one output each.)
\<close>

theorem run_model_objective_before_constraint:
  assumes built: "build_problem rt dd rd = Inr prob"
    and names: "distinct (map item_name (res_var_dict s))"
  shows "(\<forall>e s1. objective_function_compute X x s = (Inl e, s1) \<longrightarrow>
            run_model X prob x s = (Inl e, s1))
       \<and> (\<forall>v s1. objective_function_compute X x s = (Inr v, s1) \<longrightarrow>
            dicts_grown 1 1 s s1 \<and>
            (\<exists>out. run_model X prob x s = (Inr out, s1) \<and> objective_output out = Some v \<and>
               (\<forall>it\<in>set (res_var_dict s1).
                  constraint_outputs out (item_name it) = Some (last (item_listval it)))))"
proof (intro conjI allI impI)
  note eq = run_model_eq[OF build_problem_subsystems[OF built], of X x s]
  fix e s1
  assume "objective_function_compute X x s = (Inl e, s1)"
  with eq show "run_model X prob x s = (Inl e, s1)" by simp
next
  fix v s1
  assume ok: "objective_function_compute X x s = (Inr v, s1)"
  then show "dicts_grown 1 1 s s1"
    using objective_function_compute_grown[of X x] by (auto simp: ok_rel_def)
next
  note eq = run_model_eq[OF build_problem_subsystems[OF built], of X x s]
  fix v s1
  assume ok: "objective_function_compute X x s = (Inr v, s1)"
  then have "dicts_grown 1 1 s s1"
    using objective_function_compute_grown[of X x] by (auto simp: ok_rel_def)
  then have g: "grown_by (Suc 0) (res_var_dict s) (res_var_dict s1)"
    by (simp add: dicts_grown_def)
  have ne: "\<forall>it\<in>set (res_var_dict s1). item_listval it \<noteq> []"
    using g by (rule grown_by_nonempty)
  have dist: "distinct (map item_name (res_var_dict s1))"
    using grown_by_names[OF g] names by simp
  let ?outs = "fold (\<lambda>it outs. outs(item_name it \<mapsto> last (item_listval it))) (res_var_dict s1) Map.empty"
  have cc: "constraint_compute (res_var_dict s1) Map.empty = Inr ?outs"
    using ne by (rule constraint_compute_fold)
  have "run_model X prob x s = (Inr \<lparr>objective_output = Some v, constraint_outputs = ?outs\<rparr>, s1)"
    using eq ok cc by simp
  moreover have "\<forall>it\<in>set (res_var_dict s1). ?outs (item_name it) = Some (last (item_listval it))"
    using fold_outputs_entry[OF dist] by blast
  ultimately show "\<exists>out. run_model X prob x s = (Inr out, s1) \<and> objective_output out = Some v \<and>
               (\<forall>it\<in>set (res_var_dict s1).
                  constraint_outputs out (item_name it) = Some (last (item_listval it)))"
    by simp
qed

lemma run_component_extend: "io_rel dicts_extend (run_component X x c out)"
proof (cases c)
  case IndepVarComp
  then show ?thesis by (simp add: io_returnE dicts_extend_refl)
next
  case objective_function
  then show ?thesis
    by (auto intro!: io_bindE objective_function_compute_extend io_returnE
        intro: dicts_extend_refl dicts_extend_trans)
next
  case constraint
  then show ?thesis
    by (auto intro!: io_bindE io_gets io_liftE io_returnE
        intro: dicts_extend_refl dicts_extend_trans)
qed

lemma run_components_extend: "io_rel dicts_extend (run_components X x cs out)"
proof (induction cs arbitrary: out)
  case Nil
  then show ?case by (simp add: io_returnE dicts_extend_refl)
next
  case (Cons a cs)
  obtain name c where a: "a = (name, c)" by (cases a)
  show ?case
    unfolding a run_components.simps
    by (rule io_bindE[OF run_component_extend Cons.IH]) (rule dicts_extend_trans)
qed

lemma run_model_extend: "io_rel dicts_extend (run_model X prob x)"
  by (simp add: run_model_def run_components_extend)

lemma evaluate_points_extend: "io_rel dicts_extend (evaluate_points X prob pts)"
proof (induction pts)
  case Nil
  then show ?case by (simp add: io_returnE dicts_extend_refl)
next
  case (Cons x pts)
  show ?case
    unfolding evaluate_points.simps
    by (intro io_bindE run_model_extend Cons.IH io_returnE)
       (auto intro: dicts_extend_refl dicts_extend_trans)
qed

lemma run_model_grown:
  assumes "subsystems prob =
      [(''indeps'', IndepVarComp), (''objective'', objective_function), (''const'', constraint)]"
  shows "ok_rel (dicts_grown 1 1) (run_model X prob x)"
  unfolding ok_rel_def
proof (intro allI impI)
  fix s v s'
  assume run: "run_model X prob x s = (Inr v, s')"
  obtain r s1 where o: "objective_function_compute X x s = (r, s1)"
    by (cases "objective_function_compute X x s")
  with run run_model_eq[OF assms, of X x s] obtain w where "r = Inr w" "s' = s1"
    by (cases r) (auto split: sum.splits)
  with o objective_function_compute_grown[of X x] show "dicts_grown 1 1 s s'"
    by (auto simp: ok_rel_def)
qed

lemma evaluate_points_grown:
  assumes "subsystems prob =
      [(''indeps'', IndepVarComp), (''objective'', objective_function), (''const'', constraint)]"
  shows "ok_rel (dicts_grown (length pts) (length pts)) (evaluate_points X prob pts)"
proof (induction pts)
  case Nil
  then show ?case
    by (simp add: ok_rel_def returnE_def dicts_grown_def grown_by_0)
next
  case (Cons x pts)
  have rest: "\<And>out. ok_rel (dicts_grown (length pts) (length pts))
      (bindE (evaluate_points X prob pts) (\<lambda>outs. returnE (out # outs)))"
    by (rule ok_then_same[OF Cons.IH]) (rule same_returnE)
  show ?case
    unfolding evaluate_points.simps
    by (rule ok_bindE[OF run_model_grown[OF assms] rest]) (auto dest: dicts_grown_add)
qed

lemma run_driver_extend: "io_rel dicts_extend (run_driver X prob)"
  by (simp add: run_driver_def evaluate_points_extend)

lemma run_routine_extend: "io_rel dicts_extend (run_routine X)"
  unfolding run_routine_def
  by (intro io_bindE run_driver_extend io_liftE io_gets io_callW)
     (auto simp: dicts_extend_def extends_refl intro: extends_trans)

text \<open>
  C4: whatever the evaluation of a sequence of points by the driver does, and so whatever
  \<open>run_driver\<close> and \<open>run_routine\<close> do, each history of the state it reaches begins
  with the history it had at the start, in both dictionaries: nothing is removed or
  overwritten.  When the
  \<open>N\<close> evaluations are completed, every history has exactly
  \<open>N\<close> elements more, so a design variable that started with its one seed value has
  \<open>N + 1\<close>.  Each call of the objective's compute is \<open>one_iteration\<close> started in the
  state where every design history has received exactly one new value.
\<close>

theorem histories_append_only:
  assumes built: "build_problem rt dd rd = Inr prob"
    and run: "evaluate_points X prob pts s = (r, s')"
  shows "dicts_extend s s'
       \<and> dicts_extend s (snd (run_driver X prob s))
       \<and> dicts_extend s (snd (run_routine X s))
       \<and> (\<forall>outs. r = Inr outs \<longrightarrow>
            dicts_grown (length pts) (length pts) s s' \<and>
            ((\<forall>it\<in>set (design_var_dict s). length (item_listval it) = 1) \<longrightarrow>
             (\<forall>it\<in>set (design_var_dict s'). length (item_listval it) = length pts + 1)))
       \<and> objective_function_compute X x s =
            one_iteration X (s\<lparr>design_var_dict := append_inputs x (design_var_dict s)\<rparr>)
       \<and> grown_by 1 (design_var_dict s) (append_inputs x (design_var_dict s))"
proof (intro conjI allI impI)
  show "dicts_extend s s'"
    using evaluate_points_extend[of X prob pts] run by (auto simp: io_rel_def dest: spec[of _ s])
next
  show "dicts_extend s (snd (run_driver X prob s))"
    using run_driver_extend[of X prob] by (simp add: io_rel_def)
next
  show "dicts_extend s (snd (run_routine X s))"
    using run_routine_extend[of X] by (simp add: io_rel_def)
next
  fix outs assume "r = Inr outs"
  with run evaluate_points_grown[OF build_problem_subsystems[OF built], of pts X]
  show g: "dicts_grown (length pts) (length pts) s s'"
    by (auto simp: ok_rel_def)
  assume "\<forall>it\<in>set (design_var_dict s). length (item_listval it) = 1"
  with g grown_by_length[of "length pts" "design_var_dict s" "design_var_dict s'" 1]
  show "\<forall>it\<in>set (design_var_dict s'). length (item_listval it) = length pts + 1"
    by (simp add: dicts_grown_def)
next
  show "objective_function_compute X x s =
            one_iteration X (s\<lparr>design_var_dict := append_inputs x (design_var_dict s)\<rparr>)"
    by (rule objective_function_compute_eq)
next
  show "grown_by 1 (design_var_dict s) (append_inputs x (design_var_dict s))"
    by (rule append_inputs_grown)
qed

lemmas example_defs = run_defs objective_function_compute_def compute_obj_eval_defs

lemma example_compute:
  "objective_function_compute X_ok (\<lambda>key. 31) s_example =
     (Inr (Float (- 5)),
      s_example\<lparr>counter := 1,
        design_var_dict := [(''span'', ''span'', [30, 31], Some 20, Some 40, ''set_span'', ''get_span'')],
        res_var_dict := [(''cl'', ''cl'', [2 / 5, 1 / 2], None, None, ''get_cl''),
                         (''cd'', ''cd'', [1 / 10, 1 / 10], None, None, ''get_cd'')]\<rparr>)"
  by (simp add: example_defs)

text \<open>
  One evaluation at the point \<open>31\<close>: \<open>cl\<close> and \<open>cd\<close> receive \<open>0.5\<close> and \<open>0.1\<close>, the
  objective is \<open>-5\<close>, and the constraint component outputs these two new values.
\<close>

theorem run_model_objective_before_constraint_witness:
  "\<exists>prob s1 out.
      build_problem \<lparr>type = ''Optim'', modules = [], driver = ''COBYLA'', objective = ''cl/cd'', date = ''''\<rparr> [] []
        = Inr prob
    \<and> objective_function_compute X_ok (\<lambda>key. 31) s_example = (Inr (Float (- 5)), s1)
    \<and> run_model X_ok prob (\<lambda>key. 31) s_example = (Inr out, s1)
    \<and> map item_listval (res_var_dict s1) = [[2 / 5, 1 / 2], [1 / 10, 1 / 10]]
    \<and> constraint_outputs out ''cl'' = Some (1 / 2)
    \<and> constraint_outputs out ''cd'' = Some (1 / 10)"
proof -
  let ?rt = "\<lparr>type = ''Optim'', modules = [], driver = ''COBYLA'', objective = ''cl/cd'', date = ''''\<rparr>"
  let ?s1 = "s_example\<lparr>counter := 1,
        design_var_dict := [(''span'', ''span'', [30, 31], Some 20, Some 40, ''set_span'', ''get_span'')],
        res_var_dict := [(''cl'', ''cl'', [2 / 5, 1 / 2], None, None, ''get_cl''),
                         (''cd'', ''cd'', [1 / 10, 1 / 10], None, None, ''get_cd'')]\<rparr>"
  obtain prob where b: "build_problem ?rt [] [] = Inr prob"
    by (simp add: build_problem_def choose_driver_def Let_def)
  have names: "distinct (map item_name (res_var_dict s_example))"
    by (simp add: s_example_def)
  from run_model_objective_before_constraint[OF b names, of X_ok "\<lambda>key. 31"] example_compute
  obtain out where out: "run_model X_ok prob (\<lambda>key. 31) s_example = (Inr out, ?s1)"
    "\<forall>it\<in>set (res_var_dict ?s1). constraint_outputs out (item_name it) = Some (last (item_listval it))"
    by blast
  from out(2) have "constraint_outputs out ''cl'' = Some (1 / 2)" "constraint_outputs out ''cd'' = Some (1 / 10)"
    by simp_all
  with b example_compute out(1) show ?thesis
    by (intro exI[of _ prob] exI[of _ ?s1] exI[of _ out]) simp
qed

text \<open>Two evaluations, at \<open>31\<close> and \<open>32\<close>, from the seed \<open>30\<close>.\<close>

theorem histories_append_only_witness:
  "\<exists>prob outs s'.
      build_problem \<lparr>type = ''Optim'', modules = [], driver = ''COBYLA'', objective = ''cl/cd'', date = ''''\<rparr> [] []
        = Inr prob
    \<and> evaluate_points X_ok prob [\<lambda>key. 31, \<lambda>key. 32] s_example = (Inr outs, s')
    \<and> map item_listval (design_var_dict s_example) = [[30]]
    \<and> map item_listval (design_var_dict s') = [[30, 31, 32]]
    \<and> map item_listval (res_var_dict s') = [[2 / 5, 1 / 2, 1 / 2], [1 / 10, 1 / 10, 1 / 10]]
    \<and> dicts_grown 2 2 s_example s'"
proof -
  let ?rt = "\<lparr>type = ''Optim'', modules = [], driver = ''COBYLA'', objective = ''cl/cd'', date = ''''\<rparr>"
  let ?s2 = "s_example\<lparr>counter := 2,
        design_var_dict := [(''span'', ''span'', [30, 31, 32], Some 20, Some 40, ''set_span'', ''get_span'')],
        res_var_dict := [(''cl'', ''cl'', [2 / 5, 1 / 2, 1 / 2], None, None, ''get_cl''),
                         (''cd'', ''cd'', [1 / 10, 1 / 10, 1 / 10], None, None, ''get_cd'')]\<rparr>"
  obtain prob where b: "build_problem ?rt [] [] = Inr prob"
    by (simp add: build_problem_def choose_driver_def Let_def)
  note sub = build_problem_subsystems[OF b]
  obtain outs where run: "evaluate_points X_ok prob [\<lambda>key. 31, \<lambda>key. 32] s_example = (Inr outs, ?s2)"
    by (simp add: run_model_eq[OF sub] example_defs)
  from histories_append_only[OF b run, of "\<lambda>key. 31"]
  have "dicts_grown 2 2 s_example ?s2" by (simp add: numeral_2_eq_2)
  with b run show ?thesis
    by (intro exI[of _ prob] exI[of _ outs] exI[of _ ?s2]) (simp add: s_example_def)
qed

subsection \<open>The routine set up\<close>

lemma same_Rt_refl: "same_Rt s s"
  by (simp add: same_Rt_def)

lemma same_Rt_trans: "same_Rt a b \<Longrightarrow> same_Rt b c \<Longrightarrow> same_Rt a c"
  by (simp add: same_Rt_def)

lemma update_res_var_dict_Rt: "io_rel same_Rt (update_res_var_dict X tixi)"
  by (simp add: io_rel_def update_res_var_dict_def same_Rt_def split: prod.splits)

lemma one_iteration_Rt: "io_rel same_Rt (one_iteration X)"
  unfolding one_iteration_def
  by (intro io_bindE update_res_var_dict_Rt io_returnE io_liftE io_gets io_modify io_callW io_if)
     (simp_all add: same_Rt_def)

lemma objective_function_compute_Rt: "io_rel same_Rt (objective_function_compute X x)"
  unfolding objective_function_compute_def
  by (intro io_bindE one_iteration_Rt io_modify) (simp_all add: same_Rt_def)

lemma run_component_Rt: "io_rel same_Rt (run_component X x c out)"
proof (cases c)
  case IndepVarComp
  then show ?thesis by (simp add: io_returnE same_Rt_refl)
next
  case objective_function
  then show ?thesis
    by (auto intro!: io_bindE objective_function_compute_Rt io_returnE
        intro: same_Rt_refl same_Rt_trans)
next
  case constraint
  then show ?thesis
    by (auto intro!: io_bindE io_gets io_liftE io_returnE
        intro: same_Rt_refl same_Rt_trans)
qed

lemma run_components_Rt: "io_rel same_Rt (run_components X x cs out)"
proof (induction cs arbitrary: out)
  case Nil
  then show ?case by (simp add: io_returnE same_Rt_refl)
next
  case (Cons a cs)
  obtain name c where a: "a = (name, c)" by (cases a)
  show ?case
    unfolding a run_components.simps
    by (rule io_bindE[OF run_component_Rt Cons.IH]) (rule same_Rt_trans)
qed

lemma evaluate_points_Rt: "io_rel same_Rt (evaluate_points X prob pts)"
proof (induction pts)
  case Nil
  then show ?case by (simp add: io_returnE same_Rt_refl)
next
  case (Cons x pts)
  have "io_rel same_Rt (run_model X prob x)"
    by (simp add: run_model_def run_components_Rt)
  then show ?case
    unfolding evaluate_points.simps
    by (intro io_bindE Cons.IH io_returnE) (auto intro: same_Rt_refl same_Rt_trans)
qed

lemma run_driver_Rt: "io_rel same_Rt (run_driver X prob)"
  by (simp add: run_driver_def evaluate_points_Rt)

lemma run_routine_Rt: "io_rel same_Rt (run_routine X)"
  unfolding run_routine_def
  by (intro io_bindE run_driver_Rt io_liftE io_gets io_callW)
     (simp_all add: same_Rt_def)

subsection \<open>The number of iterations\<close>

lemma same_counter_refl: "same_counter s s"
  by (simp add: same_counter_def)

lemma same_counter_trans: "same_counter a b \<Longrightarrow> same_counter b c \<Longrightarrow> same_counter a c"
  by (simp add: same_counter_def)

lemma update_res_var_dict_counter: "io_rel same_counter (update_res_var_dict X tixi)"
  by (simp add: io_rel_def update_res_var_dict_def same_counter_def split: prod.splits)

lemma io_modify_bindE:
  assumes "\<And>u. io_rel Q (f u)" and "\<And>s s'. Q (g s) s' \<Longrightarrow> R s s'"
  shows "io_rel R (bindE (modify g) f)"
  using assms by (simp add: io_rel_def bindE_def modify_def)

text \<open>
  \<open>one_iteration\<close> advances the counter by one, first of all, and nothing after that
  touches it: this holds however the iteration ends.
\<close>

lemma one_iteration_counted: "io_rel (counted 1) (one_iteration X)"
  unfolding one_iteration_def
proof (rule io_modify_bindE[where Q = same_counter])
  fix u
  show "io_rel same_counter
     (bindE (returnE (get_toolinput_file_path X ''CPACSUpdater'')) (\<lambda>cpacs_path.
     bindE (returnE (get_tooloutput_file_path X ''CPACSUpdater'')) (\<lambda>cpacs_out_path.
     bindE (callW (open_tixi X cpacs_path)) (\<lambda>tixi.
     bindE (gets Rt) (\<lambda>rt.
     bindE (callW (create_new_wkdir X (date rt))) (\<lambda>wkdir_path.
     bindE (liftE (updateTextElement X tixi WKDIR_XPATH wkdir_path)) (\<lambda>tixi.
     bindE (liftE (get_value X tixi (SU2_XPATH @ ''/aeroMapUID''))) (\<lambda>aeromap_uid.
     bindE (liftE (get_aeromap X tixi aeromap_uid)) (\<lambda>Coef.
     bindE (liftE (delete_aeromap X tixi aeromap_uid)) (\<lambda>tixi.
     bindE (liftE (create_empty_aeromap X tixi aeromap_uid ''test_optim'')) (\<lambda>tixi.
     bindE (liftE (save_parameters X tixi aeromap_uid Coef)) (\<lambda>tixi.
     bindE (callW (close_tixi X tixi cpacs_path)) (\<lambda>u.
     bindE (gets design_var_dict) (\<lambda>dd.
     bindE (callW (update_cpacs_file X cpacs_path cpacs_out_path dd)) (\<lambda>u.
     bindE (gets counter) (\<lambda>n.
     bindE (if n mod 1 = 0
            then callW (copy_module_to_module X ''CPACSUpdater'' ''out'' ''Optimisation''
                          (''iter_'' @ str_nat n))
            else returnE ()) (\<lambda>u.
     bindE (liftE (first_item (modules rt))) (\<lambda>first_module.
     bindE (callW (copy_module_to_module X ''CPACSUpdater'' ''out'' first_module ''in'')) (\<lambda>u.
     bindE (callW (run_subworkflow X (modules rt))) (\<lambda>u.
     bindE (liftE (last_item (modules rt))) (\<lambda>last_module.
     bindE (callW (copy_module_to_module X last_module ''out'' ''CPACSUpdater'' ''in'')) (\<lambda>u.
     bindE (returnE (get_tooloutput_file_path X last_module)) (\<lambda>cpacs_results_path.
     bindE (callW (open_tixi X cpacs_results_path)) (\<lambda>tixi.
     bindE (update_res_var_dict X tixi) (\<lambda>u.
     bindE (gets (\<lambda>s. compute_obj (Rt s) (res_var_dict s))) liftE)))))))))))))))))))))))))"
    by (intro io_bindE update_res_var_dict_counter io_returnE io_liftE io_gets io_callW io_if)
       (simp_all add: same_counter_def)
next
  fix s s' :: "'a state"
  assume "same_counter (s\<lparr>counter := counter s + 1\<rparr>) s'"
  then show "counted 1 s s'"
    by (simp add: same_counter_def counted_def)
qed

lemma objective_function_compute_counted: "io_rel (counted 1) (objective_function_compute X x)"
  unfolding objective_function_compute_def
proof (rule io_modify_bindE[where Q = "counted 1"])
  fix u :: unit
  show "io_rel (counted 1) (one_iteration X)"
    by (rule one_iteration_counted)
next
  fix s s' :: "'a state"
  assume "counted 1 (s\<lparr>design_var_dict := append_inputs x (design_var_dict s)\<rparr>) s'"
  then show "counted 1 s s'"
    by (simp add: counted_def)
qed

lemma run_model_counted:
  assumes "subsystems prob =
      [(''indeps'', IndepVarComp), (''objective'', objective_function), (''const'', constraint)]"
  shows "io_rel (counted 1) (run_model X prob x)"
  unfolding io_rel_def
proof
  fix s
  have "snd (run_model X prob x s) = snd (objective_function_compute X x s)"
    by (simp add: run_model_eq[OF assms] split: prod.splits sum.splits)
  with objective_function_compute_counted[of X x]
  show "counted 1 s (snd (run_model X prob x s))"
    by (simp add: io_rel_def)
qed

text \<open>
  Every point evaluated is one iteration: the counter advances by the number of points
  when the evaluations are completed, and by no more than that when one of them raises.
\<close>

lemma evaluate_points_counted:
  assumes sub: "subsystems prob =
      [(''indeps'', IndepVarComp), (''objective'', objective_function), (''const'', constraint)]"
  shows "counted_upto (length pts) s (snd (evaluate_points X prob pts s))
       \<and> (\<forall>outs. fst (evaluate_points X prob pts s) = Inr outs \<longrightarrow>
            counted (length pts) s (snd (evaluate_points X prob pts s)))"
proof (induction pts arbitrary: s)
  case Nil
  then show ?case
    by (simp add: returnE_def counted_upto_def counted_def)
next
  case (Cons x pts)
  obtain r s1 where m: "run_model X prob x s = (r, s1)"
    by (cases "run_model X prob x s")
  have c1: "counter s1 = counter s + 1"
    using run_model_counted[OF sub, of X x] m
    by (auto simp: io_rel_def counted_def dest: spec[of _ s])
  show ?case
  proof (cases r)
    case (Inl e)
    with m c1 show ?thesis
      by (simp add: bindE_def counted_upto_def)
  next
    case (Inr out)
    obtain r2 s2 where e: "evaluate_points X prob pts s1 = (r2, s2)"
      by (cases "evaluate_points X prob pts s1")
    from Cons.IH[of s1] e have ih: "counter s1 \<le> counter s2" "counter s2 \<le> counter s1 + length pts"
      "\<And>outs. r2 = Inr outs \<Longrightarrow> counter s2 = counter s1 + length pts"
      by (simp_all add: counted_upto_def counted_def)
    have run: "evaluate_points X prob (x # pts) s =
        (case r2 of Inl e \<Rightarrow> (Inl e, s2) | Inr outs \<Rightarrow> (Inr (out # outs), s2))"
      using m Inr e by (simp add: bindE_def returnE_def split: sum.splits)
    show ?thesis
      using ih c1 unfolding run
      by (cases r2) (simp_all add: counted_upto_def counted_def)
  qed
qed

lemma run_routine_cases:
  "run_routine X s =
     (case build_problem (Rt s) (design_var_dict s) (res_var_dict s) of
        Inl e \<Rightarrow> (Inl e, s)
      | Inr prob \<Rightarrow>
         (case objective_function_setup (Rt s) (design_var_dict s) of
            Inl e \<Rightarrow> (Inl e, s)
          | Inr objective_ports \<Rightarrow>
             (case constraint_setup (res_var_dict s) of
                Inl e \<Rightarrow> (Inl e, s)
              | Inr constraint_ports \<Rightarrow>
                 (case run_driver X prob s of
                    (Inl e, s1) \<Rightarrow> (Inl e, s1)
                  | (Inr outs, s1) \<Rightarrow> callW (read_results X) s1))))"
  by (simp add: run_routine_def bindE_def gets_def liftE_def split: sum.splits prod.splits)

text \<open>
  The iterations of a run of \<open>run_routine\<close>: with the driver \<open>d\<close> selected, no more
  than its cap and no more than it has points to propose; exactly that many when the run
  is completed, each history having received one value per iteration.
\<close>

lemma run_routine_iterations:
  assumes run: "run_routine X s = (r, s')"
    and drv: "choose_driver (Rt s) = Some d"
  shows "counted_upto (min (max_evaluations d) (length (driver_points X d))) s s'
       \<and> (r = Inr () \<longrightarrow>
            counted (min (max_evaluations d) (length (driver_points X d))) s s' \<and>
            dicts_grown (min (max_evaluations d) (length (driver_points X d)))
              (min (max_evaluations d) (length (driver_points X d))) s s')"
proof (cases "build_problem (Rt s) (design_var_dict s) (res_var_dict s)")
  case (Inl e)
  with run have "s' = s" "r = Inl e"
    by (simp_all add: run_routine_cases)
  then show ?thesis
    by (simp add: counted_upto_def)
next
  case (Inr prob)
  let ?n = "min (max_evaluations d) (length (driver_points X d))"
  let ?pts = "take (max_evaluations d) (driver_points X d)"
  note sub = build_problem_subsystems[OF Inr]
  have pd: "prob_driver prob = d"
    using build_problem_driver[OF Inr] drv by simp
  have len: "length ?pts = ?n" by simp
  have rd: "run_driver X prob s = evaluate_points X prob ?pts s"
    by (simp add: run_driver_def pd)
  note cnt = evaluate_points_counted[OF sub, of ?pts s X]
  show ?thesis
  proof (cases "objective_function_setup (Rt s) (design_var_dict s)")
    case (Inl e)
    with run Inr have "s' = s" "r = Inl e"
      by (simp_all add: run_routine_cases)
    then show ?thesis by (simp add: counted_upto_def)
  next
    case os: (Inr objective_ports)
    show ?thesis
    proof (cases "constraint_setup (res_var_dict s)")
      case (Inl e)
      with run Inr os have "s' = s" "r = Inl e"
        by (simp_all add: run_routine_cases)
      then show ?thesis by (simp add: counted_upto_def)
    next
      case cs: (Inr constraint_ports)
      obtain r1 s1 where e: "evaluate_points X prob ?pts s = (r1, s1)"
        by (cases "evaluate_points X prob ?pts s")
      show ?thesis
      proof (cases r1)
        case (Inl e1)
        with run Inr os cs rd e have "s' = s1" "r = Inl e1"
          by (simp_all add: run_routine_cases)
        with cnt e len show ?thesis by simp
      next
        case r1: (Inr outs)
        with run Inr os cs rd e have fin: "callW (read_results X) s1 = (r, s')"
          by (simp add: run_routine_cases)
        then have same: "counter s' = counter s1" "design_var_dict s' = design_var_dict s1"
          "res_var_dict s' = res_var_dict s1"
          by (auto simp: callW_def split: prod.splits)
        have c: "counted_upto ?n s s1" "counted ?n s s1"
          using cnt e r1 len by simp_all
        have g: "dicts_grown ?n ?n s s1"
          using evaluate_points_grown[OF sub, of ?pts X] e r1 len
          by (auto simp: ok_rel_def)
        from c g same show ?thesis
          by (simp add: counted_upto_def counted_def dicts_grown_def)
      qed
    qed
  qed
qed

text \<open>
  \<open>routine_setup\<close> up to the call of \<open>run_routine\<close>: the routine is assigned, the
  dictionaries are those that \<open>init_dict\<close> gives for the input file of the first module,
  and the counter is not touched.  If one of these statements raises, that is the outcome.
\<close>

lemma routine_setup_cases:
  assumes "routine_setup X module_list routine_type s = (r, s')"
  shows "Rt s' = (Rt s)\<lparr>type := routine_type, modules := module_list, driver := ''COBYLA'',
               objective := ''cl/cd'', date := now X (world s)\<rparr>
       \<and> ((\<exists>e. r = Inl e \<and> counter s' = counter s)
          \<or> (\<exists>rd dd w s3. module_list \<noteq> []
              \<and> init_dict X (get_toolinput_file_path X (hd module_list)) (world s) = (Inr (rd, dd), w)
              \<and> Rt s3 = (Rt s)\<lparr>type := routine_type, modules := module_list, driver := ''COBYLA'',
                   objective := ''cl/cd'', date := now X (world s)\<rparr>
              \<and> counter s3 = counter s \<and> design_var_dict s3 = dd \<and> res_var_dict s3 = rd
              \<and> run_routine X s3 = (r, s')))"
proof -
  let ?rt = "(Rt s)\<lparr>type := routine_type, modules := module_list, driver := ''COBYLA'',
               objective := ''cl/cd'', date := now X (world s)\<rparr>"
  let ?s0 = "s\<lparr>Rt := ?rt\<rparr>"
  let ?tail = "bindE (liftE (first_item module_list)) (\<lambda>first_module.
     bindE (returnE (get_toolinput_file_path X first_module)) (\<lambda>cpacs_path.
     bindE (callW (init_dict X cpacs_path)) (\<lambda>dicts.
     bindE (modify (\<lambda>s. s\<lparr>res_var_dict := fst dicts, design_var_dict := snd dicts\<rparr>)) (\<lambda>u.
     bindE (callW (copy_module_to_module X first_module ''out'' ''Optimisation'' ''initial'')) (\<lambda>u.
     bindE (callW (copy_module_to_module X first_module ''out'' ''CPACSUpdater'' ''in'')) (\<lambda>u.
     run_routine X))))))"
  have split: "routine_setup X module_list routine_type s = ?tail ?s0"
    by (simp add: routine_setup_def bindE_def modify_def)
  have "io_rel same_Rt ?tail"
    by (intro io_bindE run_routine_Rt io_returnE io_liftE io_modify io_callW)
       (simp_all add: same_Rt_def)
  then have keep: "Rt (snd (?tail ?s0)) = ?rt"
    by (simp add: io_rel_def same_Rt_def)
  have tail: "?tail ?s0 = (r, s')"
    using assms unfolding split .
  have rt: "Rt s' = ?rt"
    using keep unfolding tail by simp
  have "(\<exists>e. r = Inl e \<and> counter s' = counter s)
          \<or> (\<exists>rd dd w s3. module_list \<noteq> []
              \<and> init_dict X (get_toolinput_file_path X (hd module_list)) (world s) = (Inr (rd, dd), w)
              \<and> Rt s3 = ?rt
              \<and> counter s3 = counter s \<and> design_var_dict s3 = dd \<and> res_var_dict s3 = rd
              \<and> run_routine X s3 = (r, s'))"
  proof (cases module_list)
    case Nil
    with tail show ?thesis
      by (auto simp: bindE_def liftE_def first_item_def)
  next
    case (Cons fm ms)
    let ?path = "get_toolinput_file_path X fm"
    obtain ri w where i: "init_dict X ?path (world s) = (ri, w)"
      by (cases "init_dict X ?path (world s)")
    show ?thesis
    proof (cases ri)
      case (Inl e)
      with tail Cons i show ?thesis
        by (auto simp: bindE_def liftE_def returnE_def callW_def first_item_def)
    next
      case (Inr dicts)
      obtain rd dd where dicts: "dicts = (rd, dd)" by (cases dicts)
      let ?s1 = "?s0\<lparr>world := w, res_var_dict := rd, design_var_dict := dd\<rparr>"
      obtain r1 w1 where c1: "copy_module_to_module X fm ''out'' ''Optimisation'' ''initial'' w = (r1, w1)"
        by (cases "copy_module_to_module X fm ''out'' ''Optimisation'' ''initial'' w")
      show ?thesis
      proof (cases r1)
        case (Inl e)
        with tail Cons i Inr dicts c1 show ?thesis
          by (auto simp: bindE_def liftE_def returnE_def callW_def modify_def first_item_def)
      next
        case r1: (Inr u1)
        obtain r2 w2 where c2: "copy_module_to_module X fm ''out'' ''CPACSUpdater'' ''in'' w1 = (r2, w2)"
          by (cases "copy_module_to_module X fm ''out'' ''CPACSUpdater'' ''in'' w1")
        show ?thesis
        proof (cases r2)
          case (Inl e)
          with tail Cons i Inr dicts c1 r1 c2 show ?thesis
            by (auto simp: bindE_def liftE_def returnE_def callW_def modify_def first_item_def)
        next
          case r2: (Inr u2)
          let ?s3 = "?s0\<lparr>res_var_dict := rd, design_var_dict := dd, world := w2\<rparr>"
          have "?tail ?s0 = run_routine X ?s3"
            using Cons i Inr dicts c1 r1 c2 r2
            by (simp add: bindE_def liftE_def returnE_def callW_def modify_def first_item_def)
          with tail have "run_routine X ?s3 = (r, s')" by simp
          moreover have "init_dict X (get_toolinput_file_path X (hd module_list)) (world s) = (Inr (rd, dd), w)"
            using Cons i Inr dicts by simp
          ultimately show ?thesis
            using Cons by (intro disjI2 exI[of _ rd] exI[of _ dd] exI[of _ w] exI[of _ ?s3]) simp
        qed
      qed
    qed
  qed
  with rt show ?thesis by blast
qed

text \<open>
  C7: whatever the module list, the routine type, the collaborators and the state, and
  however the run ends, \<open>routine_setup\<close> leaves the routine with the optimizer
  \<open>COBYLA\<close> and the objective \<open>cl/cd\<close> (and with the type it was given).  When that
  type is \<open>Optim\<close>, the run it starts makes 10 iterations at most, however many points
  the optimizer has to propose; and a run that is completed has read the dictionaries with
  \<open>init_dict\<close> and made exactly as many iterations as the optimizer driver with the
  options \<open>optimizer = COBYLA\<close> and \<open>maxiter = 10\<close> proposes points, or 10 if there
  are more, every history having received one value per iteration: the cap ends the run.
\<close>

theorem routine_setup_hard_coded:
  assumes run: "routine_setup X module_list routine_type s = (r, s')"
  shows "driver (Rt s') = ''COBYLA'' \<and> objective (Rt s') = ''cl/cd'' \<and> type (Rt s') = routine_type
       \<and> (routine_type = ''Optim'' \<longrightarrow>
            counter s \<le> counter s' \<and> counter s' \<le> counter s + 10
          \<and> (r = Inr () \<longrightarrow>
               (\<exists>rd dd w. module_list \<noteq> []
                 \<and> init_dict X (get_toolinput_file_path X (hd module_list)) (world s) = (Inr (rd, dd), w)
                 \<and> counter s' =
                     counter s + min 10 (length (driver_points X (ScipyOptimizeDriver ''COBYLA'' 10)))
                 \<and> grown_by (min 10 (length (driver_points X (ScipyOptimizeDriver ''COBYLA'' 10))))
                     dd (design_var_dict s')
                 \<and> grown_by (min 10 (length (driver_points X (ScipyOptimizeDriver ''COBYLA'' 10))))
                     rd (res_var_dict s'))))"
proof -
  let ?rt = "(Rt s)\<lparr>type := routine_type, modules := module_list, driver := ''COBYLA'',
               objective := ''cl/cd'', date := now X (world s)\<rparr>"
  let ?d = "ScipyOptimizeDriver ''COBYLA'' 10"
  let ?n = "min 10 (length (driver_points X ?d))"
  note split_run = routine_setup_cases[OF run]
  from split_run have rt: "Rt s' = ?rt" by blast
  have optim: "counter s \<le> counter s' \<and> counter s' \<le> counter s + 10
          \<and> (r = Inr () \<longrightarrow>
               (\<exists>rd dd w. module_list \<noteq> []
                 \<and> init_dict X (get_toolinput_file_path X (hd module_list)) (world s) = (Inr (rd, dd), w)
                 \<and> counter s' = counter s + ?n
                 \<and> grown_by ?n dd (design_var_dict s')
                 \<and> grown_by ?n rd (res_var_dict s')))"
    if t: "routine_type = ''Optim''"
  proof -
    from split_run consider
        (failed) e where "r = Inl e" "counter s' = counter s"
      | (started) rd dd w s3 where "module_list \<noteq> []"
          "init_dict X (get_toolinput_file_path X (hd module_list)) (world s) = (Inr (rd, dd), w)"
          "Rt s3 = ?rt" "counter s3 = counter s" "design_var_dict s3 = dd" "res_var_dict s3 = rd"
          "run_routine X s3 = (r, s')"
      by blast
    then show ?thesis
    proof cases
      case failed
      then show ?thesis by simp
    next
      case started
      have drv: "choose_driver (Rt s3) = Some ?d"
        using started(3) t by (simp add: choose_driver_def)
      from run_routine_iterations[OF started(7) drv]
      have up: "counted_upto ?n s3 s'"
        and compl: "r = Inr () \<longrightarrow> counted ?n s3 s' \<and> dicts_grown ?n ?n s3 s'"
        by simp_all
      from up started(4) have bound: "counter s \<le> counter s' \<and> counter s' \<le> counter s + 10"
        by (auto simp: counted_upto_def min_def split: if_splits)
      have "\<exists>rd dd w. module_list \<noteq> []
                 \<and> init_dict X (get_toolinput_file_path X (hd module_list)) (world s) = (Inr (rd, dd), w)
                 \<and> counter s' = counter s + ?n
                 \<and> grown_by ?n dd (design_var_dict s')
                 \<and> grown_by ?n rd (res_var_dict s')"
        if "r = Inr ()"
      proof -
        from compl that have "counted ?n s3 s'" "dicts_grown ?n ?n s3 s'" by simp_all
        with started(4,5,6) have "counter s' = counter s + ?n"
          "grown_by ?n dd (design_var_dict s')" "grown_by ?n rd (res_var_dict s')"
          by (simp_all add: counted_def dicts_grown_def)
        with started(1,2) show ?thesis by blast
      qed
      with bound show ?thesis by blast
    qed
  qed
  from rt optim show ?thesis by simp
qed

text \<open>
  An example where the optimizer has twelve points to propose.  One evaluation of the
  model with the collaborators \<open>X_many\<close>, and then any number of them.
\<close>

lemma X_many_step:
  assumes sub: "subsystems prob =
      [(''indeps'', IndepVarComp), (''objective'', objective_function), (''const'', constraint)]"
    and ob: "objective (Rt s) = ''cl/cd''" and ms: "modules (Rt s) = [''SU2Run'']"
    and dd: "design_var_dict s = [(''span'', ''span'', h, Some 20, Some 40, ''set_span'', ''get_span'')]"
    and rd: "res_var_dict s = [(''cl'', ''cl'', hcl, None, None, ''get_cl''),
                               (''cd'', ''cd'', hcd, None, None, ''get_cd'')]"
  shows "\<exists>out s'. run_model X_many prob x s = (Inr out, s')
       \<and> Rt s' = Rt s \<and> counter s' = counter s + 1
       \<and> design_var_dict s' =
           [(''span'', ''span'', h @ [x ''span''], Some 20, Some 40, ''set_span'', ''get_span'')]
       \<and> res_var_dict s' = [(''cl'', ''cl'', hcl @ [1 / 2], None, None, ''get_cl''),
                             (''cd'', ''cd'', hcd @ [1 / 10], None, None, ''get_cd'')]"
  using ob ms dd rd
  by (simp add: run_model_eq[OF sub] example_defs X_many_def)

lemma X_many_evaluate:
  assumes sub: "subsystems prob =
      [(''indeps'', IndepVarComp), (''objective'', objective_function), (''const'', constraint)]"
    and ob: "objective (Rt s) = ''cl/cd''" and ms: "modules (Rt s) = [''SU2Run'']"
    and dd: "design_var_dict s = [(''span'', ''span'', h, Some 20, Some 40, ''set_span'', ''get_span'')]"
    and rd: "res_var_dict s = [(''cl'', ''cl'', hcl, None, None, ''get_cl''),
                               (''cd'', ''cd'', hcd, None, None, ''get_cd'')]"
  shows "\<exists>outs s'. evaluate_points X_many prob pts s = (Inr outs, s')
       \<and> design_var_dict s' =
           [(''span'', ''span'', h @ map (\<lambda>x. x ''span'') pts, Some 20, Some 40, ''set_span'', ''get_span'')]"
  using ob ms dd rd
proof (induction pts arbitrary: s h hcl hcd)
  case Nil
  then show ?case by (simp add: returnE_def)
next
  case (Cons x pts)
  from X_many_step[OF sub Cons.prems, of x]
  obtain out s1 where s1: "run_model X_many prob x s = (Inr out, s1)" "Rt s1 = Rt s"
    "design_var_dict s1 =
       [(''span'', ''span'', h @ [x ''span''], Some 20, Some 40, ''set_span'', ''get_span'')]"
    "res_var_dict s1 = [(''cl'', ''cl'', hcl @ [1 / 2], None, None, ''get_cl''),
                        (''cd'', ''cd'', hcd @ [1 / 10], None, None, ''get_cd'')]"
    by blast
  have "objective (Rt s1) = ''cl/cd''" "modules (Rt s1) = [''SU2Run'']"
    using s1(2) Cons.prems(1,2) by simp_all
  from Cons.IH[OF this s1(3) s1(4)]
  obtain outs s2 where s2: "evaluate_points X_many prob pts s1 = (Inr outs, s2)"
    "design_var_dict s2 =
       [(''span'', ''span'', (h @ [x ''span'']) @ map (\<lambda>x. x ''span'') pts, Some 20, Some 40,
         ''set_span'', ''get_span'')]"
    by blast
  have "evaluate_points X_many prob (x # pts) s = (Inr (out # outs), s2)"
    using s1(1) s2(1) by (simp add: bindE_def returnE_def)
  with s2(2) show ?case by simp
qed

lemma routine_setup_many_runs:
  "\<exists>s'. routine_setup X_many [''SU2Run''] ''Optim'' s_example = (Inr (), s')
       \<and> map item_listval (design_var_dict s') = [[30, 31, 32, 33, 34, 35, 36, 37, 38, 39, 40]]"
proof -
  let ?rt = "\<lparr>type = ''Optim'', modules = [''SU2Run''], driver = ''COBYLA'',
           objective = ''cl/cd'', date = ''2020-06-04_12-00-00''\<rparr>"
  let ?dd = "[(''span'', ''span'', [30 :: real], Some (20 :: real), Some (40 :: real), ''set_span'', ''get_span'')]"
  let ?rd = "[(''cl'', ''cl'', [2 / 5 :: real], None :: real option, None :: real option, ''get_cl''),
              (''cd'', ''cd'', [1 / 10], None, None, ''get_cd'')]"
  let ?s3 = "\<lparr>Rt = ?rt, counter = 0, design_var_dict = ?dd, res_var_dict = ?rd, world = ()\<rparr>"
  let ?pts = "map (\<lambda>v key. v) [31, 32, 33, 34, 35, 36, 37, 38, 39, 40 :: real] :: (string \<Rightarrow> real) list"
  have start: "routine_setup X_many [''SU2Run''] ''Optim'' s_example = run_routine X_many ?s3"
    by (simp add: routine_setup_def run_defs X_many_def)
  have drv: "choose_driver ?rt = Some (ScipyOptimizeDriver ''COBYLA'' 10)"
    by (simp add: choose_driver_def)
  have "\<forall>it\<in>set ?dd. item_listval it \<noteq> []" "length (filter (\<lambda>it. item_name it = ''cms'') ?rd) \<le> 1"
    by simp_all
  from build_problem_ok[OF drv this] obtain p where b: "build_problem ?rt ?dd ?rd = Inr p"
    by blast
  note sub = build_problem_subsystems[OF b]
  have pd: "prob_driver p = ScipyOptimizeDriver ''COBYLA'' 10"
    using build_problem_driver[OF b] drv by simp
  have rdrv: "run_driver X_many p = evaluate_points X_many p ?pts"
    by (simp add: run_driver_def pd X_many_def X_ok_def)
  from X_many_evaluate[OF sub, of ?s3 "[30]" "[2 / 5]" "[1 / 10]" ?pts]
  obtain outs s1 where s1: "evaluate_points X_many p ?pts ?s3 = (Inr outs, s1)"
    "design_var_dict s1 =
       [(''span'', ''span'', [30] @ map (\<lambda>x. x ''span'') ?pts, Some 20, Some 40, ''set_span'', ''get_span'')]"
    by auto
  have "run_routine X_many ?s3 = (Inr (), s1)"
    using b rdrv s1(1)
    by (simp add: run_routine_cases objective_function_setup_def callW_def X_many_def X_ok_def)
  with start s1(2) show ?thesis by simp
qed

text \<open>
  A complete run of the example: of the twelve points the optimizer has to propose the
  first ten are evaluated, and the run ends without an exception, with these settings.
\<close>

theorem routine_setup_hard_coded_witness:
  "length (driver_points X_many (ScipyOptimizeDriver ''COBYLA'' 10)) = 12
   \<and> counter s_example = 0
   \<and> (\<exists>s'. routine_setup X_many [''SU2Run''] ''Optim'' s_example = (Inr (), s')
         \<and> driver (Rt s') = ''COBYLA'' \<and> objective (Rt s') = ''cl/cd''
         \<and> counter s' = 10
         \<and> map item_listval (design_var_dict s') = [[30, 31, 32, 33, 34, 35, 36, 37, 38, 39, 40]]
         \<and> map (\<lambda>it. length (item_listval it)) (res_var_dict s') = [11, 11])"
proof -
  let ?rd = "[(''cl'', ''cl'', [2 / 5 :: real], None :: real option, None :: real option, ''get_cl''),
              (''cd'', ''cd'', [1 / 10], None, None, ''get_cd'')]"
  let ?dd = "[(''span'', ''span'', [30 :: real], Some (20 :: real), Some (40 :: real), ''set_span'', ''get_span'')]"
  let ?n = "min 10 (length (driver_points X_many (ScipyOptimizeDriver ''COBYLA'' 10)))"
  from routine_setup_many_runs obtain s' where
    run: "routine_setup X_many [''SU2Run''] ''Optim'' s_example = (Inr (), s')"
    and hist: "map item_listval (design_var_dict s') = [[30, 31, 32, 33, 34, 35, 36, 37, 38, 39, 40]]"
    by auto
  have len: "length (driver_points X_many (ScipyOptimizeDriver ''COBYLA'' 10)) = 12"
    by (simp add: X_many_def)
  then have n: "?n = 10" by simp
  have c0: "counter s_example = 0"
    by (simp add: s_example_def)
  have init: "init_dict X_many (get_toolinput_file_path X_many (hd [''SU2Run''])) (world s_example) =
      (Inr (?rd, ?dd), ())"
    by (simp add: X_many_def X_ok_def)
  note h = routine_setup_hard_coded[OF run]
  from h have settings: "driver (Rt s') = ''COBYLA''" "objective (Rt s') = ''cl/cd''"
    by blast+
  from h obtain rd dd w where
    i: "init_dict X_many (get_toolinput_file_path X_many (hd [''SU2Run''])) (world s_example) = (Inr (rd, dd), w)"
    and c: "counter s' = counter s_example + ?n"
    and g: "grown_by ?n rd (res_var_dict s')"
    by blast
  from i init have "rd = ?rd" by simp
  with g have res: "grown_by 10 ?rd (res_var_dict s')"
    unfolding n by simp
  from c have cnt: "counter s' = 10"
    unfolding n c0 by simp
  from res have lens: "map (\<lambda>it. length (item_listval it)) (res_var_dict s') = [11, 11]"
    by (auto simp: grown_by_def list_all2_Cons1)
  from run settings cnt hist lens
  have "\<exists>s'. routine_setup X_many [''SU2Run''] ''Optim'' s_example = (Inr (), s')
         \<and> driver (Rt s') = ''COBYLA'' \<and> objective (Rt s') = ''cl/cd''
         \<and> counter s' = 10
         \<and> map item_listval (design_var_dict s') = [[30, 31, 32, 33, 34, 35, 36, 37, 38, 39, 40]]
         \<and> map (\<lambda>it. length (item_listval it)) (res_var_dict s') = [11, 11]"
    by (intro exI[of _ s'] conjI)
  with len c0 show ?thesis by (intro conjI)
qed

section \<open>Properties of the module metadata\<close>

lemmas specs_defs =
  SkinFriction_cpacs_inout_def new_CPACSInOut_def add_input_def add_output_def
  CEASIOM_XPATH_def

text \<open>
  C10: every variable of the SkinFriction metadata is a record of name, default value,
  unit, description and path, and stands in exactly one of the two lists (three inputs,
  three outputs, all names different); the input \<open>wetted_area\<close> is bound to the
  tool-specific prefix followed by \<open>/geometry/analysis/wettedArea\<close>, which is
  \<open>/cpacs/toolspecific/CEASIOMpy/geometry/analysis/wettedArea\<close>.
\<close>

theorem SkinFriction_metadata:
  "map var_name (inputs SkinFriction_cpacs_inout) = [''wetted_area'', ''cruise_speed'', ''cruise_alt'']
   \<and> map var_name (outputs SkinFriction_cpacs_inout) = [''cd0'', ''wing_area'', ''wing_span'']
   \<and> distinct (map var_name (inputs SkinFriction_cpacs_inout @ outputs SkinFriction_cpacs_inout))
   \<and> find (\<lambda>e. var_name e = ''wetted_area'') (inputs SkinFriction_cpacs_inout)
       = Some \<lparr>var_name = ''wetted_area'', default_value = None, unit = ''m^2'',
               descr = ''Wetted area of the aircraft (calculated by SU2)'',
               cpacs_path = CEASIOM_XPATH @ ''/geometry/analysis/wettedArea''\<rparr>
   \<and> find (\<lambda>e. var_name e = ''wetted_area'') (outputs SkinFriction_cpacs_inout) = None
   \<and> CEASIOM_XPATH @ ''/geometry/analysis/wettedArea''
       = ''/cpacs/toolspecific/CEASIOMpy/geometry/analysis/wettedArea''"
  by (simp add: specs_defs)

end
